theory Spec2Isabelle
  imports Main "HOL-Library.Sublist"
begin

section \<open>JavaScript strings\<close>

text \<open>
  A JavaScript string is a sequence of UTF-16 code units. It is modelled as a list of
  natural numbers, one per code unit, so that \<^verbatim>\<open>length\<close>, \<^verbatim>\<open>slice\<close>, \<^verbatim>\<open>indexOf\<close> and the
  regular expressions of \<^verbatim>\<open>services/gemini.ts\<close> count what the program counts. Every
  JavaScript string is such a list (with entries below 65536), so a statement proved for all
  lists holds for all JavaScript strings. \<open>js\<close> turns a literal into its code units.
\<close>

type_synonym jsstring = "nat list"

definition js :: "string \<Rightarrow> jsstring" where
  "js s = map of_char s"

text \<open>
  \<^verbatim>\<open>\s\<close> in a regular expression and \<^verbatim>\<open>String.prototype.trim\<close> use the same set: ECMAScript
  WhiteSpace (TAB, VT, FF, SP, NBSP, ZWNBSP and category Zs) and LineTerminator
  (LF, CR, LS, PS).
\<close>

definition isLineTerminator :: "nat \<Rightarrow> bool" where
  "isLineTerminator c = (c = 10 \<or> c = 13 \<or> c = 8232 \<or> c = 8233)"

definition isWhiteSpace :: "nat \<Rightarrow> bool" where
  "isWhiteSpace c =
     (c = 9 \<or> c = 11 \<or> c = 12 \<or> c = 32 \<or> c = 160 \<or> c = 5760 \<or> (8192 \<le> c \<and> c \<le> 8202)
      \<or> c = 8239 \<or> c = 8287 \<or> c = 12288 \<or> c = 65279 \<or> isLineTerminator c)"

definition trim :: "jsstring \<Rightarrow> jsstring" where
  "trim s = rev (dropWhile isWhiteSpace (rev (dropWhile isWhiteSpace s)))"

text \<open>\<^verbatim>\<open>s.slice(0, n)\<close> is \<open>take n s\<close>; \<^verbatim>\<open>s.slice(0, -1)\<close> is \<open>butlast s\<close>.\<close>

definition endsWith :: "jsstring \<Rightarrow> nat \<Rightarrow> bool" where
  "endsWith s c = (s \<noteq> [] \<and> last s = c)"

definition countChar :: "nat \<Rightarrow> jsstring \<Rightarrow> nat" where
  "countChar c s = length (filter (\<lambda>x. x = c) s)"

text \<open>Decimal rendering of an array index, as property keys have it.\<close>

function decimal :: "nat \<Rightarrow> jsstring" where
  "decimal n = (if n < 10 then [48 + n] else decimal (n div 10) @ [48 + n mod 10])"
  by pat_completeness auto
termination
  by (relation "measure id") auto

declare decimal.simps [simp del]

section \<open>JavaScript values\<close>

text \<open>
  The values that \<^verbatim>\<open>JSON.parse\<close> produces, and \<^verbatim>\<open>undefined\<close>. An object is the list of its
  own properties in the order they were written; a later binding of a key overrides an
  earlier one, as in \<^verbatim>\<open>JSON.parse\<close> and in an object literal with a spread. A number is
  kept as the decimal it was written as, \<open>(-1)^neg * mantissa * 10^exponent\<close>; the program
  only ever tests numbers for truthiness.
\<close>

datatype jsval =
    Undefined
  | Null
  | Bool bool
  | Num bool nat int
  | Str jsstring
  | Arr "jsval list"
  | Obj "(jsstring \<times> jsval) list"

text \<open>
  A decimal converts to the double \<open>0\<close> when it is zero or rounds to zero: at most
  \<open>2^-1075\<close>, half of the smallest subnormal (ties go to the even neighbour, \<open>0\<close>).
\<close>

definition numIsZero :: "nat \<Rightarrow> int \<Rightarrow> bool" where
  "numIsZero m e = (m = 0 \<or> (e < 0 \<and> m * 2 ^ 1075 \<le> 10 ^ nat (- e)))"

fun truthy :: "jsval \<Rightarrow> bool" where
  "truthy Undefined = False"
| "truthy Null = False"
| "truthy (Bool b) = b"
| "truthy (Num neg m e) = (\<not> numIsZero m e)"
| "truthy (Str s) = (s \<noteq> [])"
| "truthy (Arr xs) = True"
| "truthy (Obj ps) = True"

definition lookupProp :: "(jsstring \<times> jsval) list \<Rightarrow> jsstring \<Rightarrow> jsval" where
  "lookupProp ps k = (case map_of (rev ps) k of Some v \<Rightarrow> v | None \<Rightarrow> Undefined)"

text \<open>
  \<open>propOf v k\<close> is \<^verbatim>\<open>v[k]\<close> for a value \<open>v\<close> that is neither \<^verbatim>\<open>null\<close> nor \<^verbatim>\<open>undefined\<close>
  and a key \<open>k\<close> that is not \<^verbatim>\<open>length\<close>, an index or a prototype property: the keys read in
  this program are \<^verbatim>\<open>filePath summary sections language title content codeExample status
  logs fixedCode\<close>. Reading a property of \<^verbatim>\<open>null\<close> or \<^verbatim>\<open>undefined\<close> throws; \<open>getProp\<close> has
  that branch.
\<close>

fun propOf :: "jsval \<Rightarrow> jsstring \<Rightarrow> jsval" where
  "propOf (Obj ps) k = lookupProp ps k"
| "propOf v k = Undefined"

datatype jserror = TypeError

fun getProp :: "jsval \<Rightarrow> jsstring \<Rightarrow> jserror + jsval" where
  "getProp Undefined k = Inl TypeError"
| "getProp Null k = Inl TypeError"
| "getProp v k = Inr (propOf v k)"

text \<open>\<^verbatim>\<open>v?.[i]\<close> for an index \<open>i\<close>: \<^verbatim>\<open>undefined\<close> on \<^verbatim>\<open>null\<close> and \<^verbatim>\<open>undefined\<close>.\<close>

fun optIndex :: "jsval \<Rightarrow> nat \<Rightarrow> jsval" where
  "optIndex (Arr xs) i = (if i < length xs then xs ! i else Undefined)"
| "optIndex (Str s) i = (if i < length s then Str [s ! i] else Undefined)"
| "optIndex (Obj ps) i = lookupProp ps (decimal i)"
| "optIndex v i = Undefined"

text \<open>\<^verbatim>\<open>v?.k\<close>.\<close>

definition optProp :: "jsval \<Rightarrow> jsstring \<Rightarrow> jsval" where
  "optProp v k = propOf v k"

text \<open>The own enumerable properties that \<^verbatim>\<open>{...v}\<close> copies.\<close>

fun spreadProps :: "jsval \<Rightarrow> (jsstring \<times> jsval) list" where
  "spreadProps (Obj ps) = ps"
| "spreadProps (Arr xs) = map (\<lambda>i. (decimal i, xs ! i)) [0..<length xs]"
| "spreadProps (Str s) = map (\<lambda>i. (decimal i, Str [s ! i])) [0..<length s]"
| "spreadProps v = []"

definition isString :: "jsval \<Rightarrow> bool" where
  "isString v = (case v of Str s \<Rightarrow> True | _ \<Rightarrow> False)"

fun isArray :: "jsval \<Rightarrow> bool" where
  "isArray (Arr xs) = True"
| "isArray v = False"

section \<open>\<^verbatim>\<open>JSON.parse\<close>\<close>

text \<open>
  The platform function, modelled after the JSON grammar of ECMA-404 that ECMAScript's
  \<^verbatim>\<open>JSON.parse\<close> accepts: a lexer into tokens and a push-down recogniser that builds the
  value. \<open>None\<close> stands for the \<^verbatim>\<open>SyntaxError\<close> it throws. The engine's limit on nesting
  depth is not part of the model.
\<close>

datatype token =
    TLBrace | TRBrace | TLBracket | TRBracket | TColon | TComma
  | TStr jsstring | TNum bool nat int | TTrue | TFalse | TNull

definition isDigit :: "nat \<Rightarrow> bool" where
  "isDigit c = (48 \<le> c \<and> c \<le> 57)"

definition hexVal :: "nat \<Rightarrow> nat option" where
  "hexVal c =
     (if 48 \<le> c \<and> c \<le> 57 then Some (c - 48)
      else if 65 \<le> c \<and> c \<le> 70 then Some (c - 55)
      else if 97 \<le> c \<and> c \<le> 102 then Some (c - 87)
      else None)"

definition simpleEscape :: "nat \<Rightarrow> nat option" where
  "simpleEscape c =
     (if c = 34 then Some 34 else if c = 92 then Some 92 else if c = 47 then Some 47
      else if c = 98 then Some 8 else if c = 102 then Some 12 else if c = 110 then Some 10
      else if c = 114 then Some 13 else if c = 116 then Some 9 else None)"

text \<open>
  \<open>lexString cs\<close> reads a string literal whose opening quote has been consumed: the decoded
  code units and the input after the closing quote.
\<close>

fun lexString :: "jsstring \<Rightarrow> (jsstring \<times> jsstring) option" where
  "lexString [] = None"
| "lexString (c # cs) =
     (if c = 34 then Some ([], cs)
      else if c < 32 then None
      else if c = 92 then
        (case cs of
           [] \<Rightarrow> None
         | e # cs1 \<Rightarrow>
             if e = 117 then
               (case cs1 of
                  h1 # h2 # h3 # h4 # cs2 \<Rightarrow>
                    (case (hexVal h1, hexVal h2, hexVal h3, hexVal h4) of
                       (Some a, Some b, Some c', Some d) \<Rightarrow>
                         map_option (\<lambda>(s, r). ((((a * 16 + b) * 16 + c') * 16 + d) # s, r))
                           (lexString cs2)
                     | _ \<Rightarrow> None)
                | _ \<Rightarrow> None)
             else
               (case simpleEscape e of
                  None \<Rightarrow> None
                | Some u \<Rightarrow> map_option (\<lambda>(s, r). (u # s, r)) (lexString cs1)))
      else map_option (\<lambda>(s, r). (c # s, r)) (lexString cs))"

definition digitsVal :: "jsstring \<Rightarrow> nat" where
  "digitsVal ds = foldl (\<lambda>acc d. acc * 10 + (d - 48)) 0 ds"

text \<open>
  \<open>lexNumber cs\<close> reads \<^verbatim>\<open>-? (0 | [1-9][0-9]*) (. [0-9]+)? ([eE] [+-]? [0-9]+)?\<close> at the
  head of \<open>cs\<close>, part by part: the integer digits, the fraction digits (none without a
  point) and the exponent (\<open>0\<close> without one), each with the input left.
\<close>

definition lexInt :: "jsstring \<Rightarrow> (jsstring \<times> jsstring) option" where
  "lexInt cs =
     (case cs of
        [] \<Rightarrow> None
      | c # r \<Rightarrow>
          if c = 48 then Some ([48], r)
          else if isDigit c then Some (takeWhile isDigit cs, dropWhile isDigit cs)
          else None)"

definition lexFrac :: "jsstring \<Rightarrow> (jsstring \<times> jsstring) option" where
  "lexFrac cs =
     (case cs of
        [] \<Rightarrow> Some ([], cs)
      | c # r \<Rightarrow>
          if c = 46 then
            (if takeWhile isDigit r = [] then None
             else Some (takeWhile isDigit r, dropWhile isDigit r))
          else Some ([], cs))"

definition lexExp :: "jsstring \<Rightarrow> (int \<times> jsstring) option" where
  "lexExp cs =
     (case cs of
        [] \<Rightarrow> Some (0, cs)
      | c # r \<Rightarrow>
          if c = 101 \<or> c = 69 then
            (let eneg = (r \<noteq> [] \<and> hd r = 45);
                 r1 = (if r \<noteq> [] \<and> (hd r = 43 \<or> hd r = 45) then tl r else r);
                 ds = takeWhile isDigit r1
             in if ds = [] then None
                else Some (if eneg then - int (digitsVal ds) else int (digitsVal ds),
                           dropWhile isDigit r1))
          else Some (0, cs))"

definition lexNumber :: "jsstring \<Rightarrow> (token \<times> jsstring) option" where
  "lexNumber cs =
     (let neg = (cs \<noteq> [] \<and> hd cs = 45);
          cs1 = (if neg then tl cs else cs)
      in case lexInt cs1 of
           None \<Rightarrow> None
         | Some (ip, cs2) \<Rightarrow>
             (case lexFrac cs2 of
                None \<Rightarrow> None
              | Some (fp, cs3) \<Rightarrow>
                  (case lexExp cs3 of
                     None \<Rightarrow> None
                   | Some (e, cs4) \<Rightarrow>
                       Some (TNum neg (digitsVal (ip @ fp)) (e - int (length fp)), cs4))))"

definition lexToken :: "jsstring \<Rightarrow> (token \<times> jsstring) option" where
  "lexToken cs =
     (case cs of
        [] \<Rightarrow> None
      | c # r \<Rightarrow>
          if c = 123 then Some (TLBrace, r)
          else if c = 125 then Some (TRBrace, r)
          else if c = 91 then Some (TLBracket, r)
          else if c = 93 then Some (TRBracket, r)
          else if c = 58 then Some (TColon, r)
          else if c = 44 then Some (TComma, r)
          else if c = 34 then map_option (\<lambda>(s, r'). (TStr s, r')) (lexString r)
          else if c = 45 \<or> isDigit c then lexNumber cs
          else if take 4 cs = js ''true'' then Some (TTrue, drop 4 cs)
          else if take 5 cs = js ''false'' then Some (TFalse, drop 5 cs)
          else if take 4 cs = js ''null'' then Some (TNull, drop 4 cs)
          else None)"

definition isJsonWs :: "nat \<Rightarrow> bool" where
  "isJsonWs c = (c = 9 \<or> c = 10 \<or> c = 13 \<or> c = 32)"

text \<open>
  A token is never empty, so the input after it is shorter; the lexer checks that where it
  recurses, which makes its termination evident.
\<close>

function tokenize :: "jsstring \<Rightarrow> token list option" where
  "tokenize cs =
     (case dropWhile isJsonWs cs of
        [] \<Rightarrow> Some []
      | c # r \<Rightarrow>
          (case lexToken (c # r) of
             None \<Rightarrow> None
           | Some (t, rest) \<Rightarrow>
               if length rest < length (c # r)
               then map_option (\<lambda>ts. t # ts) (tokenize rest)
               else None))"
  by pat_completeness auto
termination
proof (relation "measure length", goal_cases)
  case 1
  show ?case by simp
next
  case (2 cs c r p t rest)
  have "length (dropWhile isJsonWs cs) \<le> length cs"
    by (rule length_dropWhile_le)
  with 2 show ?case by simp
qed

declare tokenize.simps [simp del]

datatype frame =
    ArrFrame "jsval list"
  | ObjFrame "(jsstring \<times> jsval) list" "jsstring option"

datatype pmode =
    WantValue | WantValueOrClose | WantKeyOrClose | WantKey | WantColon | WantCommaOrClose
  | Finished jsval

text \<open>A completed value goes to the enclosing container, or is the result.\<close>

fun deliver :: "jsval \<Rightarrow> frame list \<Rightarrow> (frame list \<times> pmode) option" where
  "deliver v [] = Some ([], Finished v)"
| "deliver v (ArrFrame acc # st) = Some (ArrFrame (acc @ [v]) # st, WantCommaOrClose)"
| "deliver v (ObjFrame acc (Some k) # st) =
     Some (ObjFrame (acc @ [(k, v)]) None # st, WantCommaOrClose)"
| "deliver v (ObjFrame acc None # st) = None"

fun scalarOf :: "token \<Rightarrow> jsval option" where
  "scalarOf (TStr s) = Some (Str s)"
| "scalarOf (TNum neg m e) = Some (Num neg m e)"
| "scalarOf TTrue = Some (Bool True)"
| "scalarOf TFalse = Some (Bool False)"
| "scalarOf TNull = Some Null"
| "scalarOf t = None"

fun closeArr :: "frame list \<Rightarrow> (frame list \<times> pmode) option" where
  "closeArr (ArrFrame acc # st) = deliver (Arr acc) st"
| "closeArr st = None"

fun closeObj :: "frame list \<Rightarrow> (frame list \<times> pmode) option" where
  "closeObj (ObjFrame acc None # st) = deliver (Obj acc) st"
| "closeObj st = None"

fun setKey :: "jsstring \<Rightarrow> frame list \<Rightarrow> (frame list \<times> pmode) option" where
  "setKey k (ObjFrame acc None # st) = Some (ObjFrame acc (Some k) # st, WantColon)"
| "setKey k st = None"

definition startValue :: "frame list \<Rightarrow> token \<Rightarrow> (frame list \<times> pmode) option" where
  "startValue st t =
     (case t of
        TLBracket \<Rightarrow> Some (ArrFrame [] # st, WantValueOrClose)
      | TLBrace \<Rightarrow> Some (ObjFrame [] None # st, WantKeyOrClose)
      | _ \<Rightarrow> (case scalarOf t of Some v \<Rightarrow> deliver v st | None \<Rightarrow> None))"

fun pstep :: "frame list \<times> pmode \<Rightarrow> token \<Rightarrow> (frame list \<times> pmode) option" where
  "pstep (st, WantValue) t = startValue st t"
| "pstep (st, WantValueOrClose) t = (if t = TRBracket then closeArr st else startValue st t)"
| "pstep (st, WantKeyOrClose) t =
     (case t of TStr k \<Rightarrow> setKey k st | TRBrace \<Rightarrow> closeObj st | _ \<Rightarrow> None)"
| "pstep (st, WantKey) t = (case t of TStr k \<Rightarrow> setKey k st | _ \<Rightarrow> None)"
| "pstep (st, WantColon) t = (if t = TColon then Some (st, WantValue) else None)"
| "pstep (st, WantCommaOrClose) t =
     (case t of
        TComma \<Rightarrow>
          (case st of
             ArrFrame acc # r \<Rightarrow> Some (st, WantValue)
           | ObjFrame acc k # r \<Rightarrow> Some (st, WantKey)
           | [] \<Rightarrow> None)
      | TRBracket \<Rightarrow> closeArr st
      | TRBrace \<Rightarrow> closeObj st
      | _ \<Rightarrow> None)"
| "pstep (st, Finished v) t = None"

fun prun :: "frame list \<times> pmode \<Rightarrow> token list \<Rightarrow> jsval option" where
  "prun (st, m) [] = (case m of Finished v \<Rightarrow> Some v | _ \<Rightarrow> None)"
| "prun (st, m) (t # ts) =
     (case pstep (st, m) t of None \<Rightarrow> None | Some s \<Rightarrow> prun s ts)"

definition JSON_parse :: "jsstring \<Rightarrow> jsval option" where
  "JSON_parse text =
     (case tokenize text of None \<Rightarrow> None | Some ts \<Rightarrow> prun ([], WantValue) ts)"

section \<open>\<^verbatim>\<open>services/gemini.ts\<close>: extraction and repair\<close>

text \<open>
  \<^verbatim>\<open>cleanJson\<close>: \<^verbatim>\<open>text.match(/\{[\s\S]*\}/)\<close> matches from the first \<^verbatim>\<open>{\<close> to the last \<^verbatim>\<open>}\<close>
  after it; without a match the text is trimmed.
\<close>

definition cleanJson :: "jsstring \<Rightarrow> jsstring" where
  "cleanJson text =
     (let s = dropWhile (\<lambda>c. c \<noteq> 123) text
      in if s \<noteq> [] \<and> 125 \<in> set s then rev (dropWhile (\<lambda>c. c \<noteq> 125) (rev s))
         else trim text)"

text \<open>The \<^verbatim>\<open>catch\<close> block of \<^verbatim>\<open>repairAndParseJson\<close> up to its second \<^verbatim>\<open>JSON.parse\<close>.\<close>

definition repairText :: "jsstring \<Rightarrow> jsstring" where
  "repairText jsonString =
     (let trimmed = trim jsonString;
          repaired = (if endsWith trimmed 44 then butlast trimmed else trimmed);
          openBraces = countChar 123 repaired;
          closeBraces = countChar 125 repaired;
          openBrackets = countChar 91 repaired;
          closeBrackets = countChar 93 repaired;
          quotes = countChar 34 repaired;
          r1 = (if quotes mod 2 \<noteq> 0 then repaired @ [34] else repaired);
          r2 = (if openBrackets > closeBrackets
                then r1 @ replicate (openBrackets - closeBrackets) 93 else r1)
      in if openBraces > closeBraces
         then r2 @ replicate (openBraces - closeBraces) 125 else r2)"

text \<open>\<^verbatim>\<open>repairAndParseJson\<close> returns \<^verbatim>\<open>null\<close> when the repaired text does not parse either.\<close>

definition repairAndParseJson :: "jsstring \<Rightarrow> jsval" where
  "repairAndParseJson jsonString =
     (case JSON_parse jsonString of
        Some v \<Rightarrow> v
      | None \<Rightarrow> (case JSON_parse (repairText jsonString) of Some v \<Rightarrow> v | None \<Rightarrow> Null))"

section \<open>\<^verbatim>\<open>services/gemini.ts\<close>: the regular expressions of \<^verbatim>\<open>resilientParse\<close>\<close>

text \<open>
  \<open>scanBody\<close> is the greedy loop \<^verbatim>\<open>(?:[^"\\]|\\.)*\<close>: the code units it consumes and the
  input left. The two alternatives exclude each other on their first code unit, so the loop
  has one way through the input and giving iterations back never finds a quote;
  \<^verbatim>\<open>.\<close> matches no line terminator.
\<close>

fun scanBody :: "jsstring \<Rightarrow> jsstring \<times> jsstring" where
  "scanBody [] = ([], [])"
| "scanBody (c # cs) =
     (if c = 92 then
        (case cs of
           [] \<Rightarrow> ([], c # cs)
         | d # cs1 \<Rightarrow>
             if isLineTerminator d then ([], c # cs)
             else (case scanBody cs1 of (b, r) \<Rightarrow> (c # d # b, r)))
      else if c = 34 then ([], c # cs)
      else (case scanBody cs of (b, r) \<Rightarrow> (c # b, r)))"

text \<open>
  \<open>matchOpenAt key s\<close> matches \<^verbatim>\<open>"key"\s*:\s*"\<close> at the head of \<open>s\<close> and returns the
  input after it.
\<close>

definition matchOpenAt :: "jsstring \<Rightarrow> jsstring \<Rightarrow> jsstring option" where
  "matchOpenAt key s =
     (let pat = [34] @ key @ [34]
      in if take (length pat) s = pat then
           (case dropWhile isWhiteSpace (drop (length pat) s) of
              [] \<Rightarrow> None
            | c1 # r1 \<Rightarrow>
                if c1 = 58 then
                  (case dropWhile isWhiteSpace r1 of
                     [] \<Rightarrow> None
                   | c2 # r2 \<Rightarrow> if c2 = 34 then Some r2 else None)
                else None)
         else None)"

text \<open>\<open>matchValueAt key s\<close> matches \<^verbatim>\<open>"key"\s*:\s*"((?:[^"\\]|\\.)*)"\<close> at the head of \<open>s\<close>:
  its group 1.\<close>

definition matchValueAt :: "jsstring \<Rightarrow> jsstring \<Rightarrow> jsstring option" where
  "matchValueAt key s =
     (case matchOpenAt key s of
        None \<Rightarrow> None
      | Some r \<Rightarrow>
          (case scanBody r of
             (b, []) \<Rightarrow> None
           | (b, q # r') \<Rightarrow> if q = 34 then Some b else None))"

text \<open>\<^verbatim>\<open>s.match(/"key"\s*:\s*"((?:[^"\\]|\\.)*)"/)\<close>: group 1 of the leftmost match.\<close>

fun matchValue :: "jsstring \<Rightarrow> jsstring \<Rightarrow> jsstring option" where
  "matchValue key [] = None"
| "matchValue key (c # cs) =
     (case matchValueAt key (c # cs) of Some g \<Rightarrow> Some g | None \<Rightarrow> matchValue key cs)"

text \<open>
  \<^verbatim>\<open>text.split(/"title"\s*:\s*"/)\<close>: the pieces between successive leftmost matches. A
  match is never empty, so the input after it is shorter; the check makes the recursion
  evidently terminating.
\<close>

function splitTitle :: "jsstring \<Rightarrow> jsstring list" where
  "splitTitle s =
     (case s of
        [] \<Rightarrow> [[]]
      | c # cs \<Rightarrow>
          (case matchOpenAt (js ''title'') s of
             Some r \<Rightarrow> if length r < length s then [] # splitTitle r else [s]
           | None \<Rightarrow> (case splitTitle cs of [] \<Rightarrow> [[c]] | p # ps \<Rightarrow> (c # p) # ps)))"
  by pat_completeness auto
termination
  by (relation "measure length") auto

declare splitTitle.simps [simp del]

text \<open>\<^verbatim>\<open>s.replace(/pat/g, rep)\<close> for a pattern that is a literal text.\<close>

function replaceAll :: "jsstring \<Rightarrow> jsstring \<Rightarrow> jsstring \<Rightarrow> jsstring" where
  "replaceAll pat rep s =
     (case s of
        [] \<Rightarrow> []
      | c # cs \<Rightarrow>
          if pat \<noteq> [] \<and> take (length pat) s = pat
          then rep @ replaceAll pat rep (drop (length pat) s)
          else c # replaceAll pat rep cs)"
  by pat_completeness auto
termination
  by (relation "measure (\<lambda>(pat, rep, s). length s)") auto

declare replaceAll.simps [simp del]

text \<open>\<^verbatim>\<open>s.split('\n')\<close> with \<open>sep = 10\<close>.\<close>

fun splitOn :: "nat \<Rightarrow> jsstring \<Rightarrow> jsstring list" where
  "splitOn sep [] = [[]]"
| "splitOn sep (c # cs) =
     (if c = sep then [] # splitOn sep cs
      else (case splitOn sep cs of [] \<Rightarrow> [[c]] | p # ps \<Rightarrow> (c # p) # ps))"

section \<open>\<^verbatim>\<open>services/gemini.ts\<close>: \<^verbatim>\<open>resilientParse\<close> and \<^verbatim>\<open>fallbackRaw\<close>\<close>

text \<open>
  The body of the loop over \<^verbatim>\<open>parts\<close>: \<open>None\<close> is the \<^verbatim>\<open>continue\<close> taken when the part
  has no quote, otherwise the section pushed.
\<close>

definition sectionOfPart :: "jsstring \<Rightarrow> jsval option" where
  "sectionOfPart part =
     (if 34 \<notin> set part then None
      else
        let title = takeWhile (\<lambda>c. c \<noteq> 34) part;
            content = (case matchValue (js ''content'') part of
                         Some g \<Rightarrow> g
                       | None \<Rightarrow> js ''Content missing'');
            codeExample = (case matchValue (js ''codeExample'') part of
                             Some g \<Rightarrow> Str (replaceAll [92, 34] [34] (replaceAll [92, 110] [10] g))
                           | None \<Rightarrow> Undefined)
        in Some (Obj [(js ''title'', Str title), (js ''content'', Str content),
                      (js ''codeExample'', codeExample)]))"

text \<open>
  \<^verbatim>\<open>resilientParse\<close>; nothing inside its \<^verbatim>\<open>try\<close> throws, so its \<^verbatim>\<open>catch\<close> has no branch
  here. The first part is skipped (\<open>tl\<close>; the list of parts is never empty).
\<close>

definition resilientParse :: "jsstring \<Rightarrow> jsstring \<Rightarrow> jsval" where
  "resilientParse text fileName =
     (let summary = (case matchValue (js ''summary'') text of
                       Some g \<Rightarrow> g
                     | None \<Rightarrow> js ''Analysis completed'');
          sections = List.map_filter sectionOfPart (tl (splitTitle text))
      in if length sections > 0
         then Obj [(js ''filePath'', Str fileName), (js ''summary'', Str summary),
                   (js ''sections'', Arr sections)]
         else Null)"

definition fallbackRaw :: "jsstring \<Rightarrow> jsstring \<Rightarrow> jsval" where
  "fallbackRaw text fileName =
     (let cleanText =
            trim (replaceAll (js ''summary:'') []
                    (filter (\<lambda>c. c \<noteq> 123 \<and> c \<noteq> 34 \<and> c \<noteq> 125) text))
      in Obj [(js ''filePath'', Str fileName),
              (js ''summary'', Str (js ''Raw Analysis Output (JSON Parse Failed)'')),
              (js ''sections'',
               Arr [Obj [(js ''title'', Str (js ''Analysis'')),
                         (js ''content'',
                          Str (take 1000 cleanText
                               @ (if length cleanText > 1000 then js ''...'' else []))),
                         (js ''codeExample'',
                          Str (js ''// Code example unavailable due to formatting error''))]])])"

section \<open>\<^verbatim>\<open>services/gemini.ts\<close>: the three strategies of \<^verbatim>\<open>generateDocumentation\<close>\<close>

text \<open>
  The branch of \<^verbatim>\<open>generateDocumentation\<close> taken when \<^verbatim>\<open>response.text\<close> is truthy: the
  object returned, as a run-time value, tagged with the strategy whose \<^verbatim>\<open>return\<close> produced
  it (the source names them in its comments: Strict Parse and Repair, Resilient Regex
  Extraction, Raw Fallback).
\<close>

datatype strategy = Strict | Recovered | RawFallback

definition parseResponseText :: "jsstring \<Rightarrow> jsstring \<Rightarrow> strategy \<times> jsval" where
  "parseResponseText text fileName =
     (let cleanedText = cleanJson text;
          parsed = repairAndParseJson cleanedText
      in if truthy parsed then
           (Strict,
            Obj (spreadProps parsed
                 @ [(js ''sections'',
                     if isArray (propOf parsed (js ''sections''))
                     then propOf parsed (js ''sections'') else Arr []),
                    (js ''language'', Str (js ''en''))]))
         else
           let recovered = resilientParse text fileName
           in if truthy recovered then
                (Recovered, Obj (spreadProps recovered @ [(js ''language'', Str (js ''en''))]))
              else
                (RawFallback,
                 Obj (spreadProps (fallbackRaw text fileName)
                      @ [(js ''language'', Str (js ''en''))])))"

text \<open>
  What the specification asks of a Document, read off a run-time value: \<^verbatim>\<open>summary\<close> is a
  string, \<^verbatim>\<open>sections\<close> is an array, and \<^verbatim>\<open>title\<close> and \<^verbatim>\<open>content\<close> of each of its
  elements are strings.
\<close>

definition sectionShaped :: "jsval \<Rightarrow> bool" where
  "sectionShaped x = (isString (propOf x (js ''title'')) \<and> isString (propOf x (js ''content'')))"

definition documentShaped :: "jsval \<Rightarrow> bool" where
  "documentShaped d =
     (isString (propOf d (js ''summary''))
      \<and> (case propOf d (js ''sections'') of
           Arr xs \<Rightarrow> list_all sectionShaped xs
         | _ \<Rightarrow> False))"

section \<open>\<^verbatim>\<open>types.ts\<close>\<close>

text \<open>
  The interfaces of \<^verbatim>\<open>types.ts\<close>. TypeScript erases them at run time, and the program
  copies the properties of a parsed answer into these objects without validating them
  (\<^verbatim>\<open>{...parsed, ...}\<close>, \<^verbatim>\<open>logs: data.logs\<close>), so a property that can hold such a value is
  a \<open>jsval\<close>: whatever was parsed, \<open>Undefined\<close> when absent. A section is an element of
  \<^verbatim>\<open>sections\<close>, any value; its \<^verbatim>\<open>title\<close>, \<^verbatim>\<open>content\<close> and \<^verbatim>\<open>codeExample\<close> are read with
  \<open>getProp\<close>. \<^verbatim>\<open>sourceSha\<close> and \<^verbatim>\<open>lastUpdated\<close> are only ever written from strings, or left
  out by \<^verbatim>\<open>{...prev[path], verification: result}\<close> on a missing entry. These are the
  properties the program reads; others that a parsed answer may carry are copied along by
  the spreads and never looked at. \<open>Doc\<close> is
  \<^verbatim>\<open>Omit<GeneratedDoc, 'verification' | 'lastUpdated' | 'sourceSha'>\<close>, the result type of
  \<^verbatim>\<open>generateDocumentation\<close>.
\<close>

datatype VerificationStatus = IDLE | PENDING | SUCCESS | FAILED

record VerificationResult =
  status :: VerificationStatus
  logs :: jsval
  fixedCode :: jsval

record Doc =
  filePath :: jsval
  summary :: jsval
  sections :: jsval
  language :: jsval

record GeneratedDoc = Doc +
  sourceSha :: "jsstring option"
  verification :: VerificationResult
  lastUpdated :: "jsstring option"

datatype FileType = File | Dir

record FileNode =
  name :: jsstring
  path :: jsstring
  type :: FileType
  sha :: jsstring

text \<open>The object literal \<^verbatim>\<open>{title: t, content: c, codeExample: e}\<close>.\<close>

definition docSection :: "jsval \<Rightarrow> jsval \<Rightarrow> jsval \<Rightarrow> jsval" where
  "docSection t c e = Obj [(js ''title'', t), (js ''content'', c), (js ''codeExample'', e)]"

text \<open>The four properties of a returned object that the program reads, as they are.\<close>

definition asDoc :: "jsval \<Rightarrow> Doc" where
  "asDoc d =
     \<lparr>filePath = propOf d (js ''filePath''),
      summary = propOf d (js ''summary''),
      sections = propOf d (js ''sections''),
      language = propOf d (js ''language'')\<rparr>"

text \<open>
  The receiver of \<^verbatim>\<open>.map\<close> and \<^verbatim>\<open>.find\<close>: on \<^verbatim>\<open>undefined\<close> and \<^verbatim>\<open>null\<close> reading the
  method throws, on any other value that is not an array the method is absent and calling
  it throws. \<open>mapThrowing\<close> is \<^verbatim>\<open>.map\<close> with a callback that may throw.
\<close>

definition arrayOf :: "jsval \<Rightarrow> jserror + jsval list" where
  "arrayOf v = (case v of Arr xs \<Rightarrow> Inr xs | _ \<Rightarrow> Inl TypeError)"

fun mapThrowing :: "('a \<Rightarrow> jserror + 'b) \<Rightarrow> 'a list \<Rightarrow> jserror + 'b list" where
  "mapThrowing f [] = Inr []"
| "mapThrowing f (x # xs) =
     (case f x of
        Inl e \<Rightarrow> Inl e
      | Inr y \<Rightarrow> (case mapThrowing f xs of Inl e \<Rightarrow> Inl e | Inr ys \<Rightarrow> Inr (y # ys)))"

definition isNullish :: "jsval \<Rightarrow> bool" where
  "isNullish v = (v = Null \<or> v = Undefined)"

section \<open>\<^verbatim>\<open>services/gemini.ts\<close>: the exported functions\<close>

text \<open>
  The call \<^verbatim>\<open>ai.models.generateContent\<close> is the external collaborator. Its outcome is an
  argument of the model: it throws (with \<^verbatim>\<open>error.message\<close>, possibly absent), or it
  resolves to a response whose \<^verbatim>\<open>text\<close> is a string or \<^verbatim>\<open>undefined\<close>;
  \<^verbatim>\<open>if (response.text)\<close> is false for \<^verbatim>\<open>undefined\<close> and for the empty string. Each
  function returns, with its result, the list of external calls it made.
\<close>

datatype genOutcome = GenThrows "jsstring option" | GenText "jsstring option"

datatype request = DocsRequest | TranslateRequest | VerifyRequest

datatype call = FetchFileContent jsstring | GenerateContent request

definition minifiedDoc :: "jsstring \<Rightarrow> Doc" where
  "minifiedDoc fileName =
     \<lparr>filePath = Str fileName,
      summary = Str (js ''Skipped: File appears to be minified or generated code.''),
      sections = Arr
        [docSection (Str (js ''Analysis Skipped''))
           (Str (js ''This file contains extremely long lines (1000+ chars), suggesting it is minified or machine-generated.''))
           (Str (js ''// No example available''))],
      language = Str (js ''en'')\<rparr>"

definition blockedDoc :: "jsstring \<Rightarrow> Doc" where
  "blockedDoc fileName =
     \<lparr>filePath = Str fileName,
      summary = Str (js ''Analysis Blocked: AI returned no content.''),
      sections = Arr
        [docSection (Str (js ''Safety/Filter Block''))
           (Str (js ''The AI model refused to generate content for this file.''))
           (Str (js ''// No content generated''))],
      language = Str (js ''en'')\<rparr>"

definition serviceErrorDoc :: "jsstring \<Rightarrow> Doc" where
  "serviceErrorDoc fileName =
     \<lparr>filePath = Str fileName,
      summary = Str (js ''Service Error: Unable to contact AI.''),
      sections = Arr
        [docSection (Str (js ''API Error''))
           (Str (js ''Failed to connect to the Gemini API.''))
           (Str [])],
      language = Str (js ''en'')\<rparr>"

definition generateDocumentation :: "jsstring \<Rightarrow> jsstring \<Rightarrow> genOutcome \<Rightarrow> call list \<times> Doc" where
  "generateDocumentation fileName fileContent outcome =
     (if list_ex (\<lambda>line. length line > 1000) (splitOn 10 fileContent)
      then ([], minifiedDoc fileName)
      else
        ([GenerateContent DocsRequest],
         (case outcome of
            GenThrows err \<Rightarrow> serviceErrorDoc fileName
          | GenText None \<Rightarrow> blockedDoc fileName
          | GenText (Some responseText) \<Rightarrow>
              if responseText \<noteq> [] then asDoc (snd (parseResponseText responseText fileName))
              else blockedDoc fileName)))"

text \<open>
  \<^verbatim>\<open>verifyCodeExample\<close>. The inner \<^verbatim>\<open>try\<close> catches the \<^verbatim>\<open>SyntaxError\<close> of \<^verbatim>\<open>JSON.parse\<close>
  and the \<^verbatim>\<open>TypeError\<close> of \<^verbatim>\<open>data.status\<close> on \<^verbatim>\<open>null\<close>. The example code is the value
  of a section's \<^verbatim>\<open>codeExample\<close>; it only goes into the prompt.
\<close>

definition invalidJsonResult :: VerificationResult where
  "invalidJsonResult =
     \<lparr>status = FAILED,
      logs = Str (js ''Verification failed: Invalid JSON response from AI.''),
      fixedCode = Undefined\<rparr>"

definition verifyResponseText :: "jsstring \<Rightarrow> VerificationResult" where
  "verifyResponseText text =
     (let cleanedText = cleanJson text
      in case JSON_parse cleanedText of
           None \<Rightarrow> invalidJsonResult
         | Some data \<Rightarrow>
             (case getProp data (js ''status'') of
                Inl e \<Rightarrow> invalidJsonResult
              | Inr st \<Rightarrow>
                  \<lparr>status = (if st = Str (js ''SUCCESS'') then SUCCESS else FAILED),
                   logs = propOf data (js ''logs''),
                   fixedCode = propOf data (js ''fixedCode'')\<rparr>))"

definition systemErrorResult :: "jsstring option \<Rightarrow> VerificationResult" where
  "systemErrorResult msg =
     \<lparr>status = FAILED,
      logs = Str (js ''System Error: ''
                  @ (case msg of
                       None \<Rightarrow> js ''Unknown error during verification''
                     | Some m \<Rightarrow>
                         if m \<noteq> [] then m else js ''Unknown error during verification'')),
      fixedCode = Undefined\<rparr>"

definition noResponseResult :: VerificationResult where
  "noResponseResult =
     \<lparr>status = FAILED,
      logs = Str (js ''Verification process failed to return a valid response.''),
      fixedCode = Undefined\<rparr>"

definition verifyCodeExample ::
  "jsstring \<Rightarrow> jsstring \<Rightarrow> jsval \<Rightarrow> genOutcome \<Rightarrow> call list \<times> VerificationResult" where
  "verifyCodeExample fileName sourceCode exampleCode outcome =
     ([GenerateContent VerifyRequest],
      (case outcome of
         GenThrows msg \<Rightarrow> systemErrorResult msg
       | GenText None \<Rightarrow> noResponseResult
       | GenText (Some responseText) \<Rightarrow>
           if responseText \<noteq> [] then verifyResponseText responseText
           else noResponseResult))"

text \<open>
  \<^verbatim>\<open>translateDocumentation\<close> in two parts. \<open>translatePrecheck\<close> is what runs before the
  call to the translator: the early return for a document already in the target language,
  and the construction of the prompt, \<^verbatim>\<open>doc.sections.map(s => ({title: s.title, content:
  s.content}))\<close>, which stands before the \<^verbatim>\<open>try\<close> and so rejects the promise with its
  \<^verbatim>\<open>TypeError\<close>; \<open>None\<close> means the call is made. \<open>translateMerge\<close> is what runs when the
  call has settled: every failure inside the \<^verbatim>\<open>try\<close>, a throw of the merge included,
  returns the original document. \<open>mergeSection\<close> is the callback of the \<^verbatim>\<open>map\<close> in the
  merge, \<^verbatim>\<open>{...section, title: parsed.sections?.[idx]?.title || section.title, content:
  parsed.sections?.[idx]?.content || section.content}\<close>.
\<close>

definition translatePrecheck :: "GeneratedDoc \<Rightarrow> jsstring \<Rightarrow> (jserror + GeneratedDoc) option" where
  "translatePrecheck doc targetLanguage =
     (if language doc = Str targetLanguage then Some (Inr doc)
      else
        (case arrayOf (sections doc) of
           Inl e \<Rightarrow> Some (Inl e)
         | Inr secs \<Rightarrow> if list_ex isNullish secs then Some (Inl TypeError) else None))"

definition orElseProp :: "jsval \<Rightarrow> jsval \<Rightarrow> jsstring \<Rightarrow> jserror + jsval" where
  "orElseProp v section k = (if truthy v then Inr v else getProp section k)"

definition mergeSection :: "jsval \<Rightarrow> nat \<times> jsval \<Rightarrow> jserror + jsval" where
  "mergeSection parsed p =
     (case p of
        (idx, section) \<Rightarrow>
          let translated = optIndex (propOf parsed (js ''sections'')) idx
          in case orElseProp (optProp translated (js ''title'')) section (js ''title'') of
               Inl e \<Rightarrow> Inl e
             | Inr t \<Rightarrow>
                 (case orElseProp (optProp translated (js ''content'')) section (js ''content'') of
                    Inl e \<Rightarrow> Inl e
                  | Inr c \<Rightarrow>
                      Inr (Obj (spreadProps section @ [(js ''title'', t), (js ''content'', c)]))))"

definition translateMerge :: "GeneratedDoc \<Rightarrow> jsstring \<Rightarrow> genOutcome \<Rightarrow> GeneratedDoc" where
  "translateMerge doc targetLanguage outcome =
     (case outcome of
        GenThrows err \<Rightarrow> doc
      | GenText None \<Rightarrow> doc
      | GenText (Some responseText) \<Rightarrow>
          if responseText \<noteq> [] then
            (let cleaned = cleanJson responseText;
                 parsed = repairAndParseJson cleaned
             in if truthy parsed then
                  (case arrayOf (sections doc) of
                     Inl e \<Rightarrow> doc
                   | Inr secs \<Rightarrow>
                       (case mapThrowing (mergeSection parsed) (enumerate 0 secs) of
                          Inl e \<Rightarrow> doc
                        | Inr merged \<Rightarrow>
                            doc\<lparr>summary := propOf parsed (js ''summary''),
                                sections := Arr merged,
                                language := Str targetLanguage\<rparr>))
                else doc)
          else doc)"

definition translateDocumentation ::
  "GeneratedDoc \<Rightarrow> jsstring \<Rightarrow> genOutcome \<Rightarrow> call list \<times> (jserror + GeneratedDoc)" where
  "translateDocumentation doc targetLanguage outcome =
     (case translatePrecheck doc targetLanguage of
        Some r \<Rightarrow> ([], r)
      | None \<Rightarrow>
          ([GenerateContent TranslateRequest], Inr (translateMerge doc targetLanguage outcome)))"

section \<open>The application component (\<^verbatim>\<open>App.tsx\<close>)\<close>

text \<open>
  The state of the component: the \<^verbatim>\<open>useState\<close> cells that the documentation handlers read
  and write. \<^verbatim>\<open>docState\<close> and \<^verbatim>\<open>translationCache\<close> are objects used as dictionaries; the
  cache key is \<^verbatim>\<open>`${path}:${lang}`\<close>. The cells of the file browser (\<^verbatim>\<open>allFiles\<close>,
  \<^verbatim>\<open>visibleFiles\<close>, \<^verbatim>\<open>currentPath\<close>), \<^verbatim>\<open>repoUrl\<close>, \<^verbatim>\<open>githubToken\<close> and the token dialog
  are left out. \<^verbatim>\<open>status\<close> is named \<open>appStatus\<close> here, next to the \<open>status\<close> of a
  \<open>VerificationResult\<close>.

  An asynchronous handler runs in two parts. Its first part runs when the user acts: the
  guards, and everything it reads from the state of that moment. Its second part runs when
  its external calls have settled: the functional updates \<^verbatim>\<open>setX(prev => ...)\<close>, applied to
  the state of that later moment. The second parts are the \<open>Settle\<close> functions below. The
  functions that bear the handlers' names run both parts with nothing in between, with the
  outcomes of the external calls as arguments and the calls made as a result; this is what
  a handler does when no other event falls between its request and its answer. The runs in
  which events do fall in between are those of \<open>step\<close> further down.
\<close>

datatype ProcessingState =
  PS_IDLE | FETCHING | ANALYZING | VERIFYING | TRANSLATING | COMPLETE | ERROR

datatype fetchOutcome = FetchThrows jsstring | FetchContent jsstring

record AppState =
  selectedFile :: "FileNode option"
  docState :: "jsstring \<rightharpoonup> GeneratedDoc"
  translationCache :: "jsstring \<rightharpoonup> GeneratedDoc"
  appStatus :: ProcessingState
  errorMsg :: "jsstring option"
  repoInfo :: "(jsstring \<times> jsstring) option"
  viewLanguage :: jsstring

text \<open>\<^verbatim>\<open>`${path}:${lang}`\<close>.\<close>

definition cacheKey :: "jsstring \<Rightarrow> jsstring \<Rightarrow> jsstring" where
  "cacheKey p lang = p @ [58] @ lang"

text \<open>
  The loop \<^verbatim>\<open>Object.keys(next).forEach(key => { if (key.startsWith(path + ':')) delete
  next[key] })\<close> of \<^verbatim>\<open>processFile\<close> and \<^verbatim>\<open>handleApplyFix\<close>.
\<close>

definition evictPath :: "jsstring \<Rightarrow> (jsstring \<rightharpoonup> GeneratedDoc) \<Rightarrow> (jsstring \<rightharpoonup> GeneratedDoc)" where
  "evictPath p cache = (\<lambda>key. if prefix (p @ [58]) key then None else cache key)"

text \<open>The same loop in \<^verbatim>\<open>handleVerify\<close>, with \<^verbatim>\<open>next[key] = {...next[key], verification: result}\<close>.\<close>

definition refreshPath ::
  "jsstring \<Rightarrow> VerificationResult \<Rightarrow> (jsstring \<rightharpoonup> GeneratedDoc) \<Rightarrow> (jsstring \<rightharpoonup> GeneratedDoc)" where
  "refreshPath p result cache =
     (\<lambda>key. if prefix (p @ [58]) key
             then map_option (\<lambda>d. d\<lparr>verification := result\<rparr>) (cache key)
             else cache key)"

text \<open>
  The condition of \<^verbatim>\<open>handleFileSelect\<close>, \<^verbatim>\<open>!existingDoc || existingDoc.sourceSha !== file.sha\<close>:
  the specification's \<^verbatim>\<open>isStale\<close>.
\<close>

definition isStale :: "(jsstring \<rightharpoonup> GeneratedDoc) \<Rightarrow> jsstring \<Rightarrow> jsstring \<Rightarrow> bool" where
  "isStale ds p fp = (case ds p of None \<Rightarrow> True | Some existingDoc \<Rightarrow> sourceSha existingDoc \<noteq> Some fp)"

text \<open>
  \<^verbatim>\<open>processFile\<close>. \<open>processFileSettle\<close> is the part after the two \<^verbatim>\<open>await\<close>s: the updates
  of the \<^verbatim>\<open>try\<close> when the content was fetched (\<^verbatim>\<open>generateDocumentation\<close> never throws), the
  \<^verbatim>\<open>catch\<close> otherwise.
\<close>

definition processFileSettle ::
  "AppState \<Rightarrow> FileNode \<Rightarrow> fetchOutcome \<Rightarrow> genOutcome \<Rightarrow> jsstring \<Rightarrow> call list \<times> AppState" where
  "processFileSettle st f fetched outcome now =
     (case fetched of
        FetchThrows msg \<Rightarrow>
          ([FetchFileContent (path f)],
           st\<lparr>appStatus := ERROR,
              errorMsg := Some (js ''Failed to generate docs: '' @ msg)\<rparr>)
      | FetchContent fileContent \<Rightarrow>
          (case generateDocumentation (name f) fileContent outcome of
             (calls, generated) \<Rightarrow>
               let newDoc =
                     \<lparr>filePath = filePath generated, summary = summary generated,
                      sections = sections generated, language = language generated,
                      sourceSha = Some (sha f),
                      verification = \<lparr>status = IDLE, logs = Str [], fixedCode = Undefined\<rparr>,
                      lastUpdated = Some now\<rparr>
               in (FetchFileContent (path f) # calls,
                   st\<lparr>docState := (docState st)(path f \<mapsto> newDoc),
                      translationCache := evictPath (path f) (translationCache st),
                      appStatus := PS_IDLE\<rparr>)))"

definition processFile ::
  "AppState \<Rightarrow> FileNode \<Rightarrow> fetchOutcome \<Rightarrow> genOutcome \<Rightarrow> jsstring \<Rightarrow> call list \<times> AppState" where
  "processFile st f fetched outcome now =
     (case repoInfo st of
        None \<Rightarrow> ([], st)
      | Some info \<Rightarrow> processFileSettle st f fetched outcome now)"

text \<open>
  \<^verbatim>\<open>handleFileSelect\<close>. Selecting a directory only changes the file browser. The effect
  \<^verbatim>\<open>useEffect(() => setViewLanguage('en'), [selectedFile?.path])\<close> is part of the
  transition.
\<close>

definition selectFile :: "AppState \<Rightarrow> FileNode \<Rightarrow> AppState" where
  "selectFile st f =
     st\<lparr>selectedFile := Some f,
        viewLanguage := (if map_option path (selectedFile st) = Some (path f)
                         then viewLanguage st else js ''en'')\<rparr>"

definition handleFileSelect ::
  "AppState \<Rightarrow> FileNode \<Rightarrow> fetchOutcome \<Rightarrow> genOutcome \<Rightarrow> jsstring \<Rightarrow> call list \<times> AppState" where
  "handleFileSelect st f fetched outcome now =
     (if type f = Dir then ([], st)
      else
        let st1 = selectFile st f
        in if isStale (docState st) (path f) (sha f)
           then processFile st1 f fetched outcome now
           else ([], st1))"

definition getCurrentDoc :: "AppState \<Rightarrow> GeneratedDoc option" where
  "getCurrentDoc st =
     (case selectedFile st of
        None \<Rightarrow> None
      | Some f \<Rightarrow>
          if viewLanguage st = js ''en'' then docState st (path f)
          else (case translationCache st (cacheKey (path f) (viewLanguage st)) of
                  Some d \<Rightarrow> Some d
                | None \<Rightarrow> docState st (path f)))"

text \<open>
  \<^verbatim>\<open>handleVerify\<close>. \<open>exampleOf\<close> is \<^verbatim>\<open>currentDoc.sections?.find(s => s.codeExample)\<close> with
  the guard \<^verbatim>\<open>!exampleSection || !exampleSection.codeExample\<close>: the value of the first truthy
  \<^verbatim>\<open>codeExample\<close>. Its \<^verbatim>\<open>TypeError\<close> (a section that is \<^verbatim>\<open>null\<close>, a \<^verbatim>\<open>sections\<close> that is
  no array) is thrown before the \<^verbatim>\<open>try\<close>: the promise is rejected and no state is set.
  \<^verbatim>\<open>verifyCodeExample\<close> never throws, so the only failure after that is the one of
  \<^verbatim>\<open>fetchFileContent\<close>. Writing \<^verbatim>\<open>{...prev[path], verification: result}\<close> on a path without
  an entry makes an entry that has nothing but \<^verbatim>\<open>verification\<close>.
\<close>

fun findExample :: "jsval list \<Rightarrow> jserror + jsval option" where
  "findExample [] = Inr None"
| "findExample (s # ss) =
     (case getProp s (js ''codeExample'') of
        Inl e \<Rightarrow> Inl e
      | Inr v \<Rightarrow> if truthy v then Inr (Some s) else findExample ss)"

definition exampleOf :: "GeneratedDoc \<Rightarrow> jserror + jsval option" where
  "exampleOf currentDoc =
     (if isNullish (sections currentDoc) then Inr None
      else
        (case arrayOf (sections currentDoc) of
           Inl e \<Rightarrow> Inl e
         | Inr secs \<Rightarrow>
             (case findExample secs of
                Inl e \<Rightarrow> Inl e
              | Inr None \<Rightarrow> Inr None
              | Inr (Some exampleSection) \<Rightarrow>
                  Inr (Some (propOf exampleSection (js ''codeExample''))))))"

definition withVerification :: "GeneratedDoc option \<Rightarrow> VerificationResult \<Rightarrow> GeneratedDoc" where
  "withVerification entry result =
     (case entry of
        Some d \<Rightarrow> d\<lparr>verification := result\<rparr>
      | None \<Rightarrow>
          \<lparr>filePath = Undefined, summary = Undefined, sections = Undefined,
           language = Undefined, sourceSha = None, verification = result,
           lastUpdated = None\<rparr>)"

definition handleVerifySettle ::
  "AppState \<Rightarrow> FileNode \<Rightarrow> jsval \<Rightarrow> fetchOutcome \<Rightarrow> genOutcome \<Rightarrow> call list \<times> AppState" where
  "handleVerifySettle st f exampleCode fetched outcome =
     (case fetched of
        FetchThrows msg \<Rightarrow>
          ([FetchFileContent (path f)],
           st\<lparr>errorMsg := Some (js ''Verification failed: '' @ msg),
              appStatus := PS_IDLE\<rparr>)
      | FetchContent sourceCode \<Rightarrow>
          (case verifyCodeExample (name f) sourceCode exampleCode outcome of
             (calls, result) \<Rightarrow>
               (FetchFileContent (path f) # calls,
                st\<lparr>docState :=
                      (docState st)(path f \<mapsto> withVerification (docState st (path f)) result),
                   translationCache := refreshPath (path f) result (translationCache st),
                   appStatus := PS_IDLE\<rparr>)))"

definition handleVerify :: "AppState \<Rightarrow> fetchOutcome \<Rightarrow> genOutcome \<Rightarrow> call list \<times> AppState" where
  "handleVerify st fetched outcome =
     (case (selectedFile st, repoInfo st) of
        (Some f, Some info) \<Rightarrow>
          (case getCurrentDoc st of
             None \<Rightarrow> ([], st)
           | Some currentDoc \<Rightarrow>
               (case exampleOf currentDoc of
                  Inl e \<Rightarrow> ([], st)
                | Inr None \<Rightarrow> ([], st)
                | Inr (Some exampleCode) \<Rightarrow> handleVerifySettle st f exampleCode fetched outcome))
      | _ \<Rightarrow> ([], st))"

text \<open>
  \<^verbatim>\<open>handleTranslate\<close> and the wrapper \<^verbatim>\<open>onTranslateRequest\<close> that the viewer calls.
  \<open>handleTranslateSettle\<close> is the part after \<^verbatim>\<open>await translateDocumentation(baseDoc,
  targetLang)\<close>: the update of the cache, or the \<^verbatim>\<open>catch\<close>.
\<close>

definition handleTranslateSettle ::
  "AppState \<Rightarrow> FileNode \<Rightarrow> jsstring \<Rightarrow> jserror + GeneratedDoc \<Rightarrow> AppState" where
  "handleTranslateSettle st f targetLang r =
     (case r of
        Inl e \<Rightarrow> st\<lparr>errorMsg := Some (js ''Translation failed''), appStatus := PS_IDLE\<rparr>
      | Inr translated \<Rightarrow>
          st\<lparr>translationCache :=
                (translationCache st)(cacheKey (path f) targetLang \<mapsto> translated),
             appStatus := PS_IDLE\<rparr>)"

definition handleTranslate :: "AppState \<Rightarrow> jsstring \<Rightarrow> genOutcome \<Rightarrow> call list \<times> AppState" where
  "handleTranslate st targetLang outcome =
     (case selectedFile st of
        None \<Rightarrow> ([], st)
      | Some f \<Rightarrow>
          (case docState st (path f) of
             None \<Rightarrow> ([], st)
           | Some baseDoc \<Rightarrow>
               if targetLang = js ''en'' then ([], st)
               else if translationCache st (cacheKey (path f) targetLang) \<noteq> None then ([], st)
               else
                 (case translateDocumentation baseDoc targetLang outcome of
                    (calls, r) \<Rightarrow> (calls, handleTranslateSettle st f targetLang r))))"

definition onTranslateRequest :: "AppState \<Rightarrow> jsstring \<Rightarrow> genOutcome \<Rightarrow> call list \<times> AppState" where
  "onTranslateRequest st lang outcome = handleTranslate (st\<lparr>viewLanguage := lang\<rparr>) lang outcome"

text \<open>
  \<^verbatim>\<open>handleApplyFix\<close>; \<open>applyFixSection\<close> is the callback of its \<^verbatim>\<open>map\<close>, which reads
  \<^verbatim>\<open>section.codeExample\<close> and so throws on a section that is \<^verbatim>\<open>null\<close>. The \<^verbatim>\<open>map\<close> runs
  inside the updater of \<^verbatim>\<open>setDocState\<close>: what it throws is thrown while React renders and
  takes the component down, which is the \<open>Inl\<close> result. The argument is what the viewer
  passes, the \<^verbatim>\<open>fixedCode\<close> of the verification on display.
\<close>

definition applyFixSection :: "jsval \<Rightarrow> jsval \<Rightarrow> jserror + jsval" where
  "applyFixSection fixed section =
     (case getProp section (js ''codeExample'') of
        Inl e \<Rightarrow> Inl e
      | Inr v \<Rightarrow>
          Inr (if truthy v then Obj (spreadProps section @ [(js ''codeExample'', fixed)])
               else section))"

definition fixAppliedResult :: VerificationResult where
  "fixAppliedResult =
     \<lparr>status = IDLE, logs = Str (js ''Fix applied. Ready for re-verification.''),
      fixedCode = Undefined\<rparr>"

definition handleApplyFix :: "AppState \<Rightarrow> jsval \<Rightarrow> jserror + AppState" where
  "handleApplyFix st fixed =
     (case selectedFile st of
        None \<Rightarrow> Inr st
      | Some f \<Rightarrow>
          (case docState st (path f) of
             None \<Rightarrow> Inr st
           | Some doc \<Rightarrow>
               (case arrayOf (if truthy (sections doc) then sections doc else Arr []) of
                  Inl e \<Rightarrow> Inl e
                | Inr secs \<Rightarrow>
                    (case mapThrowing (applyFixSection fixed) secs of
                       Inl e \<Rightarrow> Inl e
                     | Inr newSections \<Rightarrow>
                         let updatedDoc = doc\<lparr>sections := Arr newSections,
                                              verification := fixAppliedResult\<rparr>
                         in Inr (st\<lparr>docState := (docState st)(path f \<mapsto> updatedDoc),
                                    translationCache :=
                                      evictPath (path f) (translationCache st)\<rparr>)))))"

text \<open>
  The language codes of the viewer's menu (\<^verbatim>\<open>LANGUAGES\<close> in \<^verbatim>\<open>DocViewer.tsx\<close>), the only
  arguments \<^verbatim>\<open>onTranslateRequest\<close> is called with.
\<close>

definition LANGUAGES :: "jsstring list" where
  "LANGUAGES = map js [''en'', ''es'', ''fr'', ''de'', ''ja'', ''zh'', ''pt'']"

section \<open>Requests in flight\<close>

text \<open>
  The first parts of the asynchronous handlers. Each returns the request it leaves in
  flight, if any, with what its second part will use: the file that was selected when the
  user acted, the example code found, the base document read from \<^verbatim>\<open>docState\<close>. The status
  set before the \<^verbatim>\<open>await\<close> is part of the state they return. A translation that
  \<open>translatePrecheck\<close> answers makes no call: its promise settles before any other event,
  so its second part runs at once.
\<close>

datatype pending =
    PendingProcess FileNode
  | PendingVerify FileNode jsval
  | PendingTranslate FileNode GeneratedDoc jsstring

definition processFileStart :: "AppState \<Rightarrow> FileNode \<Rightarrow> pending option \<times> AppState" where
  "processFileStart st f =
     (case repoInfo st of
        None \<Rightarrow> (None, st)
      | Some info \<Rightarrow> (Some (PendingProcess f), st\<lparr>appStatus := ANALYZING\<rparr>))"

definition handleFileSelectStart :: "AppState \<Rightarrow> FileNode \<Rightarrow> pending option \<times> AppState" where
  "handleFileSelectStart st f =
     (if type f = Dir then (None, st)
      else
        let st1 = selectFile st f
        in if isStale (docState st) (path f) (sha f)
           then processFileStart st1 f
           else (None, st1))"

definition handleVerifyStart :: "AppState \<Rightarrow> pending option \<times> AppState" where
  "handleVerifyStart st =
     (case (selectedFile st, repoInfo st) of
        (Some f, Some info) \<Rightarrow>
          (case getCurrentDoc st of
             None \<Rightarrow> (None, st)
           | Some currentDoc \<Rightarrow>
               (case exampleOf currentDoc of
                  Inl e \<Rightarrow> (None, st)
                | Inr None \<Rightarrow> (None, st)
                | Inr (Some exampleCode) \<Rightarrow>
                    (Some (PendingVerify f exampleCode), st\<lparr>appStatus := VERIFYING\<rparr>)))
      | _ \<Rightarrow> (None, st))"

definition handleTranslateStart :: "AppState \<Rightarrow> jsstring \<Rightarrow> pending option \<times> AppState" where
  "handleTranslateStart st targetLang =
     (case selectedFile st of
        None \<Rightarrow> (None, st)
      | Some f \<Rightarrow>
          (case docState st (path f) of
             None \<Rightarrow> (None, st)
           | Some baseDoc \<Rightarrow>
               if targetLang = js ''en'' then (None, st)
               else if translationCache st (cacheKey (path f) targetLang) \<noteq> None then (None, st)
               else
                 (case translatePrecheck baseDoc targetLang of
                    Some r \<Rightarrow>
                      (None, handleTranslateSettle (st\<lparr>appStatus := TRANSLATING\<rparr>) f targetLang r)
                  | None \<Rightarrow>
                      (Some (PendingTranslate f baseDoc targetLang),
                       st\<lparr>appStatus := TRANSLATING\<rparr>))))"

definition onTranslateRequestStart :: "AppState \<Rightarrow> jsstring \<Rightarrow> pending option \<times> AppState" where
  "onTranslateRequestStart st lang = handleTranslateStart (st\<lparr>viewLanguage := lang\<rparr>) lang"

text \<open>
  The second part of a request in flight, run on the state of the moment its calls settle.
\<close>

fun settle :: "AppState \<Rightarrow> pending \<Rightarrow> fetchOutcome \<Rightarrow> genOutcome \<Rightarrow> jsstring \<Rightarrow> AppState" where
  "settle st (PendingProcess f) fetched outcome now =
     snd (processFileSettle st f fetched outcome now)"
| "settle st (PendingVerify f exampleCode) fetched outcome now =
     snd (handleVerifySettle st f exampleCode fetched outcome)"
| "settle st (PendingTranslate f baseDoc targetLang) fetched outcome now =
     handleTranslateSettle st f targetLang (Inr (translateMerge baseDoc targetLang outcome))"

section \<open>The viewer (\<^verbatim>\<open>DocViewer.tsx\<close>) and the runs of the component\<close>

text \<open>
  What the viewer offers decides which handler the user can call. It shows the document
  \<^verbatim>\<open>getCurrentDoc()\<close> unless the status is ANALYZING; it lists
  \<^verbatim>\<open>Array.isArray(doc.sections) ? doc.sections : []\<close>; inside a section with a truthy
  \<^verbatim>\<open>codeExample\<close> it shows Run Verification unless the verification is SUCCESS or one is
  running, and Apply AI Fix when the verification is FAILED with a truthy \<^verbatim>\<open>fixedCode\<close>,
  which is the argument of \<^verbatim>\<open>onApplyFix\<close>; the language menu is disabled only while a
  translation is running. Rendering throws, and React takes the component down, when a
  section is \<^verbatim>\<open>null\<close> (\<^verbatim>\<open>section.title\<close>) or when an object stands where a text node is
  rendered; titles, contents and the summary are replaced by placeholders while a
  translation is running.
\<close>

definition viewerSections :: "GeneratedDoc \<Rightarrow> jsval list" where
  "viewerSections d = (case sections d of Arr xs \<Rightarrow> xs | _ \<Rightarrow> [])"

function renderable :: "jsval \<Rightarrow> bool" where
  "renderable (Obj ps) = False"
| "renderable (Arr xs) = list_all renderable xs"
| "renderable Undefined = True"
| "renderable Null = True"
| "renderable (Bool b) = True"
| "renderable (Num neg m e) = True"
| "renderable (Str s) = True"
  by pat_completeness auto
termination
  by (relation "measure size") (auto simp: less_Suc_eq_le size_list_estimation')

definition sectionRenders :: "bool \<Rightarrow> VerificationResult \<Rightarrow> jsval \<Rightarrow> bool" where
  "sectionRenders isTranslating v section =
     (\<not> isNullish section
      \<and> (isTranslating
          \<or> (renderable (propOf section (js ''title''))
              \<and> renderable (propOf section (js ''content''))))
      \<and> (if truthy (propOf section (js ''codeExample''))
          then renderable (propOf section (js ''codeExample''))
               \<and> (status v = IDLE
                    \<or> (renderable (logs v)
                        \<and> (if truthy (fixedCode v) \<and> status v = FAILED
                            then renderable (fixedCode v) else True)))
          else True))"

definition viewerRenders :: "AppState \<Rightarrow> bool" where
  "viewerRenders st =
     (if appStatus st = ANALYZING then True
      else
        (case getCurrentDoc st of
           None \<Rightarrow> True
         | Some d \<Rightarrow>
             renderable (filePath d)
             \<and> (appStatus st = TRANSLATING \<or> renderable (summary d))
             \<and> list_all (sectionRenders (appStatus st = TRANSLATING) (verification d))
                 (viewerSections d)))"

definition shownDoc :: "AppState \<Rightarrow> GeneratedDoc option" where
  "shownDoc st = (if appStatus st = ANALYZING then None else getCurrentDoc st)"

definition showsExample :: "GeneratedDoc \<Rightarrow> bool" where
  "showsExample d = list_ex (\<lambda>section. truthy (propOf section (js ''codeExample''))) (viewerSections d)"

definition canVerify :: "AppState \<Rightarrow> bool" where
  "canVerify st =
     (case shownDoc st of
        None \<Rightarrow> False
      | Some d \<Rightarrow>
          showsExample d \<and> status (verification d) \<noteq> SUCCESS \<and> appStatus st \<noteq> VERIFYING)"

definition canApplyFix :: "AppState \<Rightarrow> bool" where
  "canApplyFix st =
     (case shownDoc st of
        None \<Rightarrow> False
      | Some d \<Rightarrow>
          showsExample d \<and> status (verification d) = FAILED \<and> truthy (fixedCode (verification d)))"

definition canTranslate :: "AppState \<Rightarrow> jsstring \<Rightarrow> bool" where
  "canTranslate st lang =
     (shownDoc st \<noteq> None \<and> appStatus st \<noteq> TRANSLATING \<and> lang \<in> set LANGUAGES)"

text \<open>
  A run of the component. The events are the user's actions (a file of the tree is
  selected, Run Verification, a language of the menu, Apply AI Fix) and the settling of a
  request in flight, the \<open>n\<close>-th, with the outcomes of its external calls. An action the
  viewer does not offer changes nothing; after every event the component renders, and a
  render that throws ends the run.
\<close>

record Runtime =
  app :: AppState
  inFlight :: "pending list"
  crashed :: bool

datatype event =
    Select FileNode
  | Verify
  | Translate jsstring
  | ApplyFix
  | Settle nat fetchOutcome genOutcome jsstring

definition started :: "Runtime \<Rightarrow> pending option \<times> AppState \<Rightarrow> Runtime" where
  "started rt r =
     (case r of
        (None, st) \<Rightarrow> rt\<lparr>app := st\<rparr>
      | (Some p, st) \<Rightarrow> rt\<lparr>app := st, inFlight := inFlight rt @ [p]\<rparr>)"

definition act :: "Runtime \<Rightarrow> event \<Rightarrow> Runtime" where
  "act rt ev =
     (case ev of
        Select f \<Rightarrow> started rt (handleFileSelectStart (app rt) f)
      | Verify \<Rightarrow>
          if canVerify (app rt) then started rt (handleVerifyStart (app rt)) else rt
      | Translate lang \<Rightarrow>
          if canTranslate (app rt) lang then started rt (onTranslateRequestStart (app rt) lang)
          else rt
      | ApplyFix \<Rightarrow>
          (case shownDoc (app rt) of
             None \<Rightarrow> rt
           | Some d \<Rightarrow>
               if canApplyFix (app rt) then
                 (case handleApplyFix (app rt) (fixedCode (verification d)) of
                    Inl e \<Rightarrow> rt\<lparr>crashed := True\<rparr>
                  | Inr st \<Rightarrow> rt\<lparr>app := st\<rparr>)
               else rt)
      | Settle n fetched outcome now \<Rightarrow>
          if n < length (inFlight rt) then
            rt\<lparr>app := settle (app rt) (inFlight rt ! n) fetched outcome now,
               inFlight := take n (inFlight rt) @ drop (Suc n) (inFlight rt)\<rparr>
          else rt)"

definition step :: "Runtime \<Rightarrow> event \<Rightarrow> Runtime" where
  "step rt ev =
     (if crashed rt then rt
      else
        let rt1 = act rt ev
        in if viewerRenders (app rt1) then rt1 else rt1\<lparr>crashed := True\<rparr>)"

definition run :: "Runtime \<Rightarrow> event list \<Rightarrow> Runtime" where
  "run rt evs = foldl step rt evs"

text \<open>The state after \<^verbatim>\<open>handleRepoSubmit\<close> has reset both caches and loaded a repository.\<close>

definition freshState :: "jsstring \<times> jsstring \<Rightarrow> AppState" where
  "freshState info =
     \<lparr>selectedFile = None, docState = Map.empty, translationCache = Map.empty,
      appStatus = PS_IDLE, errorMsg = None, repoInfo = Some info, viewLanguage = js ''en''\<rparr>"

definition freshRuntime :: "jsstring \<times> jsstring \<Rightarrow> Runtime" where
  "freshRuntime info = \<lparr>app = freshState info, inFlight = [], crashed = False\<rparr>"

text \<open>
  The code examples of a document, section by section, and the overlay invariant of the
  specification: an entry of the translation cache for a path and a listed language has
  the code examples of the canonical entry of that path.
\<close>

definition codeExamples :: "GeneratedDoc \<Rightarrow> jsval list" where
  "codeExamples d = map (\<lambda>section. propOf section (js ''codeExample'')) (viewerSections d)"

definition overlaysMirror :: "AppState \<Rightarrow> bool" where
  "overlaysMirror st =
     (\<forall>p lang d. lang \<in> set LANGUAGES \<and> translationCache st (cacheKey p lang) = Some d
        \<longrightarrow> (\<exists>b. docState st p = Some b \<and> codeExamples d = codeExamples b))"

text \<open>
  What a run leaves for a path and a language: the code examples of the overlay, those of
  the canonical entry, and whether the component was taken down.
\<close>

definition overlayAndCanonical ::
  "Runtime \<Rightarrow> jsstring \<Rightarrow> jsstring \<Rightarrow> jsval list option \<times> jsval list option \<times> bool" where
  "overlayAndCanonical rt p lang =
     (map_option codeExamples (translationCache (app rt) (cacheKey p lang)),
      map_option codeExamples (docState (app rt) p),
      crashed rt)"

section \<open>Sample values\<close>

text \<open>A file, its canonical document, a Spanish overlay of it and a state that holds them.\<close>

definition sampleFile :: FileNode where
  "sampleFile = \<lparr>name = js ''a.ts'', path = js ''src/a.ts'', type = File, sha = js ''sha1''\<rparr>"

definition sampleDoc :: GeneratedDoc where
  "sampleDoc =
     \<lparr>filePath = Str (js ''a.ts''), summary = Str (js ''Adds numbers''),
      sections = Arr
        [docSection (Str (js ''add'')) (Str (js ''Adds two numbers'')) (Str (js ''add(1, 2)'')),
         docSection (Str (js ''Notes'')) (Str (js ''Pure function'')) Undefined],
      language = Str (js ''en''), sourceSha = Some (js ''sha1''),
      verification = \<lparr>status = IDLE, logs = Str [], fixedCode = Undefined\<rparr>,
      lastUpdated = Some (js ''2024-01-01T00:00:00.000Z'')\<rparr>"

definition sampleOverlay :: GeneratedDoc where
  "sampleOverlay =
     sampleDoc\<lparr>summary := Str (js ''Suma numeros''), language := Str (js ''es'')\<rparr>"

definition sampleState :: AppState where
  "sampleState =
     \<lparr>selectedFile = Some sampleFile,
      docState = [js ''src/a.ts'' \<mapsto> sampleDoc],
      translationCache = [js ''src/a.ts:es'' \<mapsto> sampleOverlay],
      appStatus = PS_IDLE, errorMsg = None, repoInfo = Some (js ''owner'', js ''repo''),
      viewLanguage = js ''en''\<rparr>"

text \<open>
  A run in which a fix is applied while a translation is in flight: the file is selected
  and documented; its example is verified and the oracle answers FAILED with a fixed
  code; French is chosen in the menu; Apply AI Fix is clicked; the translation arrives.
\<close>

definition raceEvents :: "event list" where
  \<open>raceEvents =
     [Select sampleFile,
      Settle 0 (FetchContent (js ''export const add = (a, b) => a + b''))
        (GenText (Some (js ''{"summary":"Adds","sections":[{"title":"add","content":"Adds two numbers","codeExample":"add(1, 2)"}]}'')))
        (js ''2024-01-01T00:00:00.000Z''),
      Verify,
      Settle 0 (FetchContent (js ''export const add = (a, b) => a + b''))
        (GenText (Some (js ''{"status":"FAILED","logs":"add is not called","fixedCode":"add(2, 3)"}'')))
        [],
      Translate (js ''fr''),
      ApplyFix,
      Settle 0 (FetchContent [])
        (GenText (Some (js ''{"summary":"Additionne","sections":[{"title":"ajouter","content":"Additionne deux nombres"}]}'')))
        []]\<close>

section \<open>Evaluation rules\<close>

lemmas json_eval = JSON_parse_def js_def tokenize.simps lexToken_def isJsonWs_def isDigit_def
  startValue_def lexNumber_def lexInt_def lexFrac_def lexExp_def digitsVal_def hexVal_def
  simpleEscape_def

lemmas text_eval = cleanJson_def trim_def isWhiteSpace_def isLineTerminator_def repairText_def
  endsWith_def countChar_def repairAndParseJson_def matchOpenAt_def matchValueAt_def
  splitTitle.simps replaceAll.simps sectionOfPart_def resilientParse_def fallbackRaw_def
  parseResponseText_def lookupProp_def List.map_filter_def

lemmas sample_eval = sampleFile_def sampleDoc_def sampleOverlay_def sampleState_def
  raceEvents_def docSection_def

lemmas app_eval = processFile_def processFileSettle_def generateDocumentation_def
  handleVerify_def handleVerifySettle_def getCurrentDoc_def exampleOf_def arrayOf_def
  isNullish_def verifyCodeExample_def verifyResponseText_def evictPath_def refreshPath_def
  cacheKey_def withVerification_def serviceErrorDoc_def blockedDoc_def invalidJsonResult_def
  systemErrorResult_def noResponseResult_def isStale_def selectFile_def handleFileSelect_def
  handleTranslate_def handleTranslateSettle_def onTranslateRequest_def
  translateDocumentation_def translatePrecheck_def translateMerge_def mergeSection_def
  orElseProp_def optProp_def asDoc_def handleApplyFix_def applyFixSection_def
  fixAppliedResult_def freshState_def

lemmas run_eval = run_def step_def act_def started_def freshRuntime_def processFileStart_def
  handleFileSelectStart_def handleVerifyStart_def handleTranslateStart_def
  onTranslateRequestStart_def viewerRenders_def sectionRenders_def viewerSections_def
  shownDoc_def showsExample_def canVerify_def canApplyFix_def canTranslate_def LANGUAGES_def
  codeExamples_def

section \<open>The checks that make the lexer and the splitter terminate never fail\<close>

lemma lexString_shorter: "lexString cs = Some (s, r) \<Longrightarrow> length r < length cs"
proof (induction "length cs" arbitrary: cs s r rule: less_induct)
  case less
  show ?case
  proof (cases cs)
    case Nil
    with less.prems show ?thesis by simp
  next
    case (Cons c q)
    show ?thesis
    proof (cases "c = 34 \<or> c \<noteq> 92")
      case True
      with less.prems Cons less.hyps [of q] show ?thesis
        by (fastforce split: if_splits)
    next
      case False
      then have c: "c = 92" by simp
      from less.prems Cons c obtain e cs1 where q: "q = e # cs1"
        by (cases q) auto
      show ?thesis
      proof (cases "e = 117")
        case False
        with less.prems Cons c q obtain s' where "lexString cs1 = Some (s', r)"
          by (auto split: option.splits)
        with less.hyps [of cs1] Cons q show ?thesis by fastforce
      next
        case True
        from less.prems Cons c q True obtain h1 h2 h3 h4 cs2 where
          cs1: "cs1 = h1 # h2 # h3 # h4 # cs2"
          by (auto split: list.splits)
        from less.prems Cons c q True cs1 obtain s' where "lexString cs2 = Some (s', r)"
          by (auto split: option.splits)
        with less.hyps [of cs2] Cons q cs1 show ?thesis by fastforce
      qed
    qed
  qed
qed

lemma lexInt_shorter: "lexInt cs = Some (ip, r) \<Longrightarrow> length r < length cs"
  by (cases cs) (auto simp: lexInt_def length_dropWhile_le less_Suc_eq_le split: if_splits)

lemma lexFrac_shorter: "lexFrac cs = Some (fp, r) \<Longrightarrow> length r \<le> length cs"
  by (cases cs)
     (auto simp: lexFrac_def split: if_splits intro: le_SucI length_dropWhile_le)

lemma lexExp_shorter: "lexExp cs = Some (e, r) \<Longrightarrow> length r \<le> length cs"
proof (cases cs)
  case Nil
  assume "lexExp cs = Some (e, r)"
  with Nil show ?thesis by (simp add: lexExp_def)
next
  case (Cons c q)
  assume l: "lexExp cs = Some (e, r)"
  show ?thesis
  proof (cases "c = 101 \<or> c = 69")
    case False
    with l Cons show ?thesis by (simp add: lexExp_def)
  next
    case True
    define r1 where "r1 = (if q \<noteq> [] \<and> (hd q = 43 \<or> hd q = 45) then tl q else q)"
    from l Cons True have "r = dropWhile isDigit r1"
      by (auto simp: lexExp_def Let_def r1_def split: if_splits)
    then have "length r \<le> length r1"
      by (simp add: length_dropWhile_le)
    moreover have "length r1 \<le> length q"
      by (simp add: r1_def)
    ultimately show ?thesis using Cons by simp
  qed
qed

lemma lexNumber_shorter: "lexNumber cs = Some (t, r) \<Longrightarrow> length r < length cs"
proof -
  assume n: "lexNumber cs = Some (t, r)"
  define cs1 where "cs1 = (if cs \<noteq> [] \<and> hd cs = 45 then tl cs else cs)"
  from n obtain ip cs2 fp cs3 e where
    i: "lexInt cs1 = Some (ip, cs2)" and f: "lexFrac cs2 = Some (fp, cs3)"
    and x: "lexExp cs3 = Some (e, r)"
    by (auto simp: lexNumber_def Let_def cs1_def split: option.splits)
  have "length cs1 \<le> length cs"
    by (simp add: cs1_def)
  with lexInt_shorter [OF i] lexFrac_shorter [OF f] lexExp_shorter [OF x] show ?thesis
    by simp
qed

lemma lexToken_shorter: "lexToken cs = Some (t, r) \<Longrightarrow> length r < length cs"
proof (cases cs)
  case Nil
  assume "lexToken cs = Some (t, r)"
  with Nil show ?thesis by (simp add: lexToken_def)
next
  case (Cons c q)
  assume l: "lexToken cs = Some (t, r)"
  show ?thesis
  proof (cases "c = 34")
    case True
    with l Cons obtain s where "lexString q = Some (s, r)"
      by (auto simp: lexToken_def)
    from lexString_shorter [OF this] Cons show ?thesis by simp
  next
    case nq: False
    show ?thesis
    proof (cases "c = 45 \<or> isDigit c")
      case True
      with l Cons nq have "lexNumber cs = Some (t, r)"
        by (auto simp: lexToken_def isDigit_def split: if_splits)
      then show ?thesis by (rule lexNumber_shorter)
    next
      case False
      with l Cons nq show ?thesis
        by (auto simp: lexToken_def split: if_splits)
    qed
  qed
qed

lemma tokenize_unguarded:
  "tokenize cs =
     (case dropWhile isJsonWs cs of
        [] \<Rightarrow> Some []
      | c # r \<Rightarrow>
          (case lexToken (c # r) of
             None \<Rightarrow> None
           | Some (t, rest) \<Rightarrow> map_option (\<lambda>ts. t # ts) (tokenize rest)))"
proof (cases "dropWhile isJsonWs cs")
  case Nil
  then show ?thesis by (subst tokenize.simps) (simp only: list.case)
next
  case (Cons c r)
  show ?thesis
  proof (cases "lexToken (c # r)")
    case None
    with Cons show ?thesis by (subst tokenize.simps) simp
  next
    case (Some p)
    obtain t rest where p: "p = (t, rest)" by (cases p)
    with Some lexToken_shorter [of "c # r" t rest] have "length rest < length (c # r)"
      by simp
    with Cons Some p show ?thesis by (subst tokenize.simps) simp
  qed
qed

lemma matchOpenAt_shorter: "matchOpenAt key s = Some r \<Longrightarrow> length r < length s"
proof -
  assume m: "matchOpenAt key s = Some r"
  let ?pat = "[34] @ key @ [34]"
  from m obtain c1 r1 c2 where
    a: "dropWhile isWhiteSpace (drop (length ?pat) s) = c1 # r1"
    and b: "dropWhile isWhiteSpace r1 = c2 # r"
    by (auto simp: matchOpenAt_def Let_def split: if_splits list.splits)
  have "length (c2 # r) \<le> length r1"
    by (metis b length_dropWhile_le)
  moreover have "length (c1 # r1) \<le> length (drop (length ?pat) s)"
    by (metis a length_dropWhile_le)
  ultimately show ?thesis by simp
qed

lemma splitTitle_unguarded:
  "splitTitle s =
     (case s of
        [] \<Rightarrow> [[]]
      | c # cs \<Rightarrow>
          (case matchOpenAt (js ''title'') s of
             Some r \<Rightarrow> [] # splitTitle r
           | None \<Rightarrow> (case splitTitle cs of [] \<Rightarrow> [[c]] | p # ps \<Rightarrow> (c # p) # ps)))"
proof (cases s)
  case Nil
  then show ?thesis by (subst splitTitle.simps) simp
next
  case (Cons c cs)
  show ?thesis
  proof (cases "matchOpenAt (js ''title'') s")
    case None
    with Cons show ?thesis by (subst splitTitle.simps) simp
  next
    case (Some r)
    with matchOpenAt_shorter [OF Some] Cons show ?thesis
      by (subst splitTitle.simps) simp
  qed
qed


section \<open>The two parts of a handler make the handler\<close>

text \<open>
  An asynchronous handler whose request settles before any other event is the handler run
  in one piece: the start of the handler followed by \<open>settle\<close> on the state it left is the
  state of the whole handler.
\<close>

lemma handleFileSelect_two_parts:
  "snd (handleFileSelect st f fetched outcome now)
     = (case handleFileSelectStart st f of
          (None, st') \<Rightarrow> st'
        | (Some p, st') \<Rightarrow> settle st' p fetched outcome now)"
  by (auto simp: handleFileSelect_def handleFileSelectStart_def processFile_def
        processFileStart_def processFileSettle_def Let_def
        split: option.splits fetchOutcome.splits prod.splits)

lemma handleVerify_two_parts:
  "snd (handleVerify st fetched outcome)
     = (case handleVerifyStart st of
          (None, st') \<Rightarrow> st'
        | (Some p, st') \<Rightarrow> settle st' p fetched outcome now)"
  by (auto simp: handleVerify_def handleVerifyStart_def handleVerifySettle_def
        split: option.splits fetchOutcome.splits prod.splits sum.splits)

lemma onTranslateRequest_two_parts:
  "snd (onTranslateRequest st lang outcome)
     = (case onTranslateRequestStart st lang of
          (None, st') \<Rightarrow> st'
        | (Some p, st') \<Rightarrow> settle st' p fetched outcome now)"
  by (auto simp: onTranslateRequest_def onTranslateRequestStart_def handleTranslate_def
        handleTranslateStart_def handleTranslateSettle_def translateDocumentation_def
        split: option.splits prod.splits sum.splits)

section \<open>The parser on the inputs of the specification\<close>

text \<open>
  C3, as the specification states it, fails: on the trailing-comma input the strict
  strategy does not succeed. \<^verbatim>\<open>repairAndParseJson\<close> removes a comma only when it is the
  last character of the trimmed text; here the comma stands before \<^verbatim>\<open>]}\<close>, brackets and
  quotes are balanced, and the repaired text is the input itself.
\<close>

theorem trailing_comma_not_strict:
  \<open>fst (parseResponseText
          (js ''{"summary":"x","sections":[{"title":"A","content":"B"},]}'') (js ''f''))
     \<noteq> Strict
   \<and> repairText (js ''{"summary":"x","sections":[{"title":"A","content":"B"},]}'')
     = js ''{"summary":"x","sections":[{"title":"A","content":"B"},]}''\<close>
  by (simp add: json_eval text_eval)

text \<open>
  C3, amended: the trailing-comma input is recovered by the regular-expression strategy,
  with summary \<^verbatim>\<open>x\<close> and exactly one section, titled \<^verbatim>\<open>A\<close> with content \<^verbatim>\<open>B\<close>.
\<close>

theorem trailing_comma_recovered:
  \<open>parseResponseText
     (js ''{"summary":"x","sections":[{"title":"A","content":"B"},]}'') (js ''f'')
   = (Recovered,
      Obj [(js ''filePath'', Str (js ''f'')), (js ''summary'', Str (js ''x'')),
           (js ''sections'',
            Arr [Obj [(js ''title'', Str (js ''A'')), (js ''content'', Str (js ''B'')),
                      (js ''codeExample'', Undefined)]]),
           (js ''language'', Str (js ''en''))])\<close>
  by (simp add: json_eval text_eval)

text \<open>
  C9: the scavenging input of the specification yields the Recovered strategy, with one
  section titled \<^verbatim>\<open>Setup\<close> whose content is \<^verbatim>\<open>Install deps\<close>.
\<close>

theorem scavenging_recovers_setup:
  \<open>parseResponseText
     (js ''garbage "title": "Setup" garbage "content": "Install deps" garbage'') (js ''f'')
   = (Recovered,
      Obj [(js ''filePath'', Str (js ''f'')), (js ''summary'', Str (js ''Analysis completed'')),
           (js ''sections'',
            Arr [Obj [(js ''title'', Str (js ''Setup'')),
                      (js ''content'', Str (js ''Install deps'')),
                      (js ''codeExample'', Undefined)]]),
           (js ''language'', Str (js ''en''))])\<close>
  by (simp add: json_eval text_eval)

section \<open>The parse pipeline is total\<close>

lemma lookupProp_append:
  "lookupProp (ps @ qs) k
     = (case map_of (rev qs) k of Some v \<Rightarrow> v | None \<Rightarrow> lookupProp ps k)"
  by (simp add: lookupProp_def map_add_def split: option.splits)

lemma decimal_digits: "set (decimal n) \<subseteq> {48..57}"
proof (induction n rule: decimal.induct)
  case (1 n)
  show ?case
  proof (cases "n < 10")
    case True
    then show ?thesis by (subst decimal.simps) auto
  next
    case False
    have "n mod 10 < 10" by simp
    then have "48 + n mod 10 \<in> {48..57}" by auto
    with False 1 show ?thesis by (subst decimal.simps) auto
  qed
qed

lemma lookupProp_index_keys:
  assumes "\<not> set k \<subseteq> {48..57}"
  shows "lookupProp (map (\<lambda>i. (decimal i, g i)) is) k = Undefined"
proof -
  have ne: "decimal i \<noteq> k" for i
    using assms decimal_digits [of i] by auto
  have "k \<notin> fst ` set (rev (map (\<lambda>i. (decimal i, g i)) is))"
  proof
    assume "k \<in> fst ` set (rev (map (\<lambda>i. (decimal i, g i)) is))"
    then obtain i where "k = decimal i" by auto
    with ne [of i] show False by simp
  qed
  then have "map_of (rev (map (\<lambda>i. (decimal i, g i)) is)) k = None"
    by (metis map_of_eq_None_iff)
  then show ?thesis by (simp add: lookupProp_def)
qed

lemma lookupProp_spreadProps:
  "\<not> set k \<subseteq> {48..57} \<Longrightarrow> lookupProp (spreadProps v) k = propOf v k"
  by (cases v) (simp_all add: lookupProp_index_keys, simp_all add: lookupProp_def)

lemma sectionOfPart_shaped: "sectionOfPart part = Some x \<Longrightarrow> sectionShaped x"
  by (auto simp: sectionOfPart_def sectionShaped_def isString_def lookupProp_def js_def Let_def
           split: if_splits option.splits)

lemma map_filter_shaped: "list_all sectionShaped (List.map_filter sectionOfPart parts)"
  by (induction parts)
     (auto simp: List.map_filter_def sectionOfPart_shaped split: option.splits)

lemma resilientParse_shaped:
  "truthy (resilientParse rawText fileName) \<Longrightarrow>
   documentShaped
     (Obj (spreadProps (resilientParse rawText fileName) @ [(js ''language'', Str (js ''en''))]))"
  using map_filter_shaped [of "tl (splitTitle rawText)"]
  by (simp add: resilientParse_def documentShaped_def Let_def lookupProp_def isString_def js_def
           split: if_splits option.splits)

lemma fallbackRaw_shaped:
  "documentShaped
     (Obj (spreadProps (fallbackRaw rawText fileName) @ [(js ''language'', Str (js ''en''))]))"
  by (simp add: fallbackRaw_def documentShaped_def sectionShaped_def Let_def lookupProp_def
        isString_def js_def)

lemma strict_fields:
  assumes "truthy parsed"
  shows "propOf (Obj (spreadProps parsed
                 @ [(js ''sections'',
                     if isArray (propOf parsed (js ''sections''))
                     then propOf parsed (js ''sections'') else Arr []),
                    (js ''language'', Str (js ''en''))])) (js ''summary'')
           = propOf parsed (js ''summary'')"
    and "propOf (Obj (spreadProps parsed
                 @ [(js ''sections'',
                     if isArray (propOf parsed (js ''sections''))
                     then propOf parsed (js ''sections'') else Arr []),
                    (js ''language'', Str (js ''en''))])) (js ''filePath'')
           = propOf parsed (js ''filePath'')"
proof -
  have s: "\<not> set (js ''summary'') \<subseteq> {48..57}" and f: "\<not> set (js ''filePath'') \<subseteq> {48..57}"
    by (simp_all add: js_def)
  show "propOf (Obj (spreadProps parsed
                 @ [(js ''sections'',
                     if isArray (propOf parsed (js ''sections''))
                     then propOf parsed (js ''sections'') else Arr []),
                    (js ''language'', Str (js ''en''))])) (js ''summary'')
           = propOf parsed (js ''summary'')"
    using lookupProp_spreadProps [OF s, of parsed]
    by (simp add: lookupProp_append) (simp add: js_def)
  show "propOf (Obj (spreadProps parsed
                 @ [(js ''sections'',
                     if isArray (propOf parsed (js ''sections''))
                     then propOf parsed (js ''sections'') else Arr []),
                    (js ''language'', Str (js ''en''))])) (js ''filePath'')
           = propOf parsed (js ''filePath'')"
    using lookupProp_spreadProps [OF f, of parsed]
    by (simp add: lookupProp_append) (simp add: js_def)
qed

lemma shaped_is_truthy: "documentShaped v \<Longrightarrow> truthy v"
  by (cases v) (simp_all add: documentShaped_def isString_def)

text \<open>
  C1, as the specification states it, fails: the text \<^verbatim>\<open>{}\<close> is valid JSON, the strict
  strategy accepts it, and the object returned has no \<^verbatim>\<open>summary\<close>.
\<close>

theorem empty_object_has_no_summary:
  \<open>fst (parseResponseText (js ''{}'') (js ''f'')) = Strict
   \<and> propOf (snd (parseResponseText (js ''{}'') (js ''f''))) (js ''summary'') = Undefined
   \<and> \<not> documentShaped (snd (parseResponseText (js ''{}'') (js ''f'')))\<close>
  by (simp add: json_eval text_eval documentShaped_def isString_def)

text \<open>
  C1, amended: for every text and file name the pipeline returns an object (the model is a
  total function in which every \<^verbatim>\<open>throw\<close> of the source is a branch) whose
  \<^verbatim>\<open>sections\<close> is an array and whose \<^verbatim>\<open>language\<close> is \<^verbatim>\<open>en\<close>. The strict strategy
  answers exactly when the extracted text, as it is or repaired, parses to a truthy value,
  and then the object has the \<^verbatim>\<open>summary\<close> and the \<^verbatim>\<open>filePath\<close> of the parsed value,
  and its \<^verbatim>\<open>sections\<close> when that is an array, the empty array otherwise: sections,
  titles and contents are those of the parsed value, unvalidated. So a parsed value of the
  expected shape (a string \<^verbatim>\<open>summary\<close>, an array \<^verbatim>\<open>sections\<close> whose members have a string
  \<^verbatim>\<open>title\<close> and a string \<^verbatim>\<open>content\<close>) is answered by the strict strategy with an object
  of that shape. Whenever another strategy answers, \<^verbatim>\<open>summary\<close> is a string and
  \<^verbatim>\<open>title\<close> and \<^verbatim>\<open>content\<close> of every section are strings.
\<close>

theorem parse_pipeline_total:
  "case parseResponseText rawText fileName of
     (tier, d) \<Rightarrow>
       isArray (propOf d (js ''sections''))
       \<and> propOf d (js ''language'') = Str (js ''en'')
       \<and> (tier = Strict) = truthy (repairAndParseJson (cleanJson rawText))
       \<and> (tier \<noteq> Strict \<longrightarrow> documentShaped d)
       \<and> (tier = Strict \<longrightarrow>
            propOf d (js ''summary'')
              = propOf (repairAndParseJson (cleanJson rawText)) (js ''summary'')
            \<and> propOf d (js ''filePath'')
              = propOf (repairAndParseJson (cleanJson rawText)) (js ''filePath'')
            \<and> propOf d (js ''sections'')
              = (if isArray (propOf (repairAndParseJson (cleanJson rawText)) (js ''sections''))
                 then propOf (repairAndParseJson (cleanJson rawText)) (js ''sections'')
                 else Arr []))
       \<and> (documentShaped (repairAndParseJson (cleanJson rawText))
            \<longrightarrow> tier = Strict \<and> documentShaped d)"
proof (cases "truthy (repairAndParseJson (cleanJson rawText))")
  case True
  let ?parsed = "repairAndParseJson (cleanJson rawText)"
  let ?d = "Obj (spreadProps ?parsed
                 @ [(js ''sections'',
                     if isArray (propOf ?parsed (js ''sections''))
                     then propOf ?parsed (js ''sections'') else Arr []),
                    (js ''language'', Str (js ''en''))])"
  have p: "parseResponseText rawText fileName = (Strict, ?d)"
    using True by (simp add: parseResponseText_def Let_def)
  have sec: "propOf ?d (js ''sections'')
               = (if isArray (propOf ?parsed (js ''sections''))
                  then propOf ?parsed (js ''sections'') else Arr [])"
    by (simp add: lookupProp_append js_def)
  have lang: "propOf ?d (js ''language'') = Str (js ''en'')"
    by (simp add: lookupProp_append js_def)
  have arr: "isArray (propOf ?d (js ''sections''))"
    unfolding sec by simp
  note sf = strict_fields [OF True]
  have shaped: "documentShaped ?parsed \<Longrightarrow> documentShaped ?d"
    unfolding documentShaped_def sec sf(1)
    by (auto split: jsval.splits)
  from p sec lang arr sf shaped True show ?thesis
    by simp
next
  case False
  then have ns: "\<not> documentShaped (repairAndParseJson (cleanJson rawText))"
    using shaped_is_truthy by blast
  show ?thesis
  proof (cases "truthy (resilientParse rawText fileName)")
    case True
    with False ns resilientParse_shaped [OF True] show ?thesis
      apply (simp add: parseResponseText_def Let_def lookupProp_append)
      apply (simp add: documentShaped_def lookupProp_append js_def split: jsval.splits)
      done
  next
    case unrecovered: False
    with False ns fallbackRaw_shaped [of rawText fileName] show ?thesis
      apply (simp add: parseResponseText_def Let_def lookupProp_append)
      apply (simp add: documentShaped_def lookupProp_append js_def split: jsval.splits)
      done
  qed
qed

lemma well_shaped_answer:
  \<open>documentShaped
     (repairAndParseJson
        (cleanJson (js ''{"summary":"x","sections":[{"title":"A","content":"B"}]}'')))
   \<and> propOf (repairAndParseJson
        (cleanJson (js ''{"summary":"x","sections":[{"title":"A","content":"B"}]}'')))
        (js ''summary'') = Str (js ''x'')\<close>
  by (simp add: json_eval text_eval documentShaped_def sectionShaped_def isString_def)

lemma prose_falls_back:
  "fst (parseResponseText (js ''I cannot help with that.'') (js ''f'')) = RawFallback"
  by (simp add: json_eval text_eval)

theorem parse_pipeline_total_witness:
  \<open>documentShaped
     (repairAndParseJson
        (cleanJson (js ''{"summary":"x","sections":[{"title":"A","content":"B"}]}'')))
   \<and> fst (parseResponseText (js ''{"summary":"x","sections":[{"title":"A","content":"B"}]}'')
           (js ''f'')) = Strict
   \<and> propOf (snd (parseResponseText
                    (js ''{"summary":"x","sections":[{"title":"A","content":"B"}]}'') (js ''f'')))
        (js ''summary'') = Str (js ''x'')
   \<and> documentShaped
       (snd (parseResponseText
               (js ''{"summary":"x","sections":[{"title":"A","content":"B"}]}'') (js ''f'')))
   \<and> fst (parseResponseText (js ''I cannot help with that.'') (js ''f'')) \<noteq> Strict
   \<and> documentShaped (snd (parseResponseText (js ''I cannot help with that.'') (js ''f'')))\<close>
  using parse_pipeline_total
          [of \<open>js ''{"summary":"x","sections":[{"title":"A","content":"B"}]}''\<close> "js ''f''"]
        parse_pipeline_total [of "js ''I cannot help with that.''" "js ''f''"]
        well_shaped_answer prose_falls_back
  by (auto split: prod.splits)


section \<open>Minified files\<close>

lemma splitOn_no_sep: "sep \<notin> set s \<Longrightarrow> splitOn sep s = [s]"
  by (induction s) auto

text \<open>
  C10: when some line of the file content (the pieces of \<^verbatim>\<open>split('\n')\<close>) is longer than
  1000 code units, \<^verbatim>\<open>generateDocumentation\<close> makes no external call and returns the fixed
  document, whatever the generator would have answered.
\<close>

theorem minified_skips_generator:
  assumes "\<exists>line\<in>set (splitOn 10 fileContent). 1000 < length line"
  shows "generateDocumentation fileName fileContent outcome =
           ([], \<lparr>filePath = Str fileName,
                 summary = Str (js ''Skipped: File appears to be minified or generated code.''),
                 sections = Arr
                   [Obj [(js ''title'', Str (js ''Analysis Skipped'')),
                         (js ''content'', Str (js ''This file contains extremely long lines (1000+ chars), suggesting it is minified or machine-generated.'')),
                         (js ''codeExample'', Str (js ''// No example available''))]],
                 language = Str (js ''en'')\<rparr>)"
  using assms
  by (simp add: generateDocumentation_def minifiedDoc_def docSection_def list_ex_iff)

theorem minified_skips_generator_witness:
  "(\<exists>line\<in>set (splitOn 10 (replicate 1001 97)). 1000 < length line)
   \<and> fst (generateDocumentation (js ''app.min.js'') (replicate 1001 97) (GenThrows None)) = []"
proof -
  have h: "\<exists>line\<in>set (splitOn 10 (replicate 1001 97)). 1000 < length line"
    by (simp add: splitOn_no_sep)
  from minified_skips_generator [OF h] h show ?thesis by simp
qed

section \<open>Applying a fix\<close>

lemma mapThrowing_applyFix:
  "list_all (\<lambda>s. \<not> isNullish s) olds \<Longrightarrow>
   \<exists>news. mapThrowing (applyFixSection fixed) olds = Inr news
     \<and> length news = length olds
     \<and> (\<forall>i < length news.
           news ! i = (if truthy (propOf (olds ! i) (js ''codeExample''))
                       then Obj (spreadProps (olds ! i) @ [(js ''codeExample'', fixed)])
                       else olds ! i))"
proof (induction olds)
  case Nil
  then show ?case by simp
next
  case (Cons s olds)
  then obtain news where n: "mapThrowing (applyFixSection fixed) olds = Inr news"
    "length news = length olds"
    "\<forall>i < length news.
           news ! i = (if truthy (propOf (olds ! i) (js ''codeExample''))
                       then Obj (spreadProps (olds ! i) @ [(js ''codeExample'', fixed)])
                       else olds ! i)"
    by auto
  from Cons.prems have "\<not> isNullish s" by simp
  then have g: "getProp s (js ''codeExample'') = Inr (propOf s (js ''codeExample''))"
    by (cases s) (simp_all add: isNullish_def)
  have a: "applyFixSection fixed s
             = Inr (if truthy (propOf s (js ''codeExample''))
                    then Obj (spreadProps s @ [(js ''codeExample'', fixed)]) else s)"
    by (simp add: applyFixSection_def g)
  let ?new = "(if truthy (propOf s (js ''codeExample''))
               then Obj (spreadProps s @ [(js ''codeExample'', fixed)]) else s) # news"
  have "mapThrowing (applyFixSection fixed) (s # olds) = Inr ?new"
    by (simp add: a n(1))
  moreover have "length ?new = length (s # olds)"
    by (simp add: n(2))
  moreover have "\<forall>i < length ?new.
           ?new ! i = (if truthy (propOf ((s # olds) ! i) (js ''codeExample''))
                       then Obj (spreadProps ((s # olds) ! i) @ [(js ''codeExample'', fixed)])
                       else (s # olds) ! i)"
  proof (intro allI impI)
    fix i assume "i < length ?new"
    then show "?new ! i = (if truthy (propOf ((s # olds) ! i) (js ''codeExample''))
                       then Obj (spreadProps ((s # olds) ! i) @ [(js ''codeExample'', fixed)])
                       else (s # olds) ! i)"
      using n(3) by (cases i) simp_all
  qed
  ultimately show ?case by blast
qed

lemma fixed_section_props:
  assumes "truthy (propOf old (js ''codeExample''))"
  shows "lookupProp (spreadProps old @ [(js ''codeExample'', fixed)]) (js ''title'')
           = propOf old (js ''title'')"
    and "lookupProp (spreadProps old @ [(js ''codeExample'', fixed)]) (js ''content'')
           = propOf old (js ''content'')"
    and "lookupProp (spreadProps old @ [(js ''codeExample'', fixed)]) (js ''codeExample'')
           = fixed"
  using assms by (cases old; simp add: lookupProp_append js_def)+

text \<open>
  The button that calls \<^verbatim>\<open>handleApplyFix\<close> stands inside a rendered section. When the
  viewer has rendered the canonical document and offers the button, the sections of that
  document are an array without \<^verbatim>\<open>null\<close> or \<^verbatim>\<open>undefined\<close> members.
\<close>

lemma offered_fix_is_applicable:
  assumes "getCurrentDoc st = Some doc" and "canApplyFix st" and "viewerRenders st"
  shows "\<exists>olds. arrayOf (if truthy (sections doc) then sections doc else Arr []) = Inr olds
           \<and> list_all (\<lambda>s. \<not> isNullish s) olds"
proof -
  from assms(1,2) have a: "appStatus st \<noteq> ANALYZING" and s: "showsExample doc"
    by (auto simp: canApplyFix_def shownDoc_def split: if_splits)
  from s obtain xs where xs: "sections doc = Arr xs"
    by (cases "sections doc") (simp_all add: showsExample_def viewerSections_def)
  from assms(1,3) a xs have "list_all (\<lambda>s. \<not> isNullish s) xs"
    by (auto simp: viewerRenders_def viewerSections_def sectionRenders_def list_all_iff)
  with xs show ?thesis
    by (simp add: arrayOf_def)
qed

text \<open>
  C5: \<^verbatim>\<open>handleApplyFix\<close> on a selected file with a canonical document whose sections are
  an array of objects (no member \<^verbatim>\<open>null\<close> or \<^verbatim>\<open>undefined\<close>, on which the source throws)
  replaces the code example of every section that has a truthy one by the fixed code and
  leaves the other sections, and every title and content, as they were; it resets the
  verification to Idle with the log line of the source and no fixed code; and it removes
  the translation-cache entry of the path for every language.
\<close>

theorem applyFix_effect:
  assumes "selectedFile st = Some f" and "docState st (path f) = Some doc"
    and "arrayOf (if truthy (sections doc) then sections doc else Arr []) = Inr olds"
    and "list_all (\<lambda>s. \<not> isNullish s) olds"
  shows "\<exists>st' doc' news.
           handleApplyFix st fixed = Inr st'
           \<and> docState st' (path f) = Some doc'
           \<and> sections doc' = Arr news
           \<and> length news = length olds
           \<and> (\<forall>i < length news.
                 let old = olds ! i
                 in propOf (news ! i) (js ''title'') = propOf old (js ''title'')
                    \<and> propOf (news ! i) (js ''content'') = propOf old (js ''content'')
                    \<and> propOf (news ! i) (js ''codeExample'')
                        = (if truthy (propOf old (js ''codeExample'')) then fixed
                           else propOf old (js ''codeExample''))
                    \<and> (\<not> truthy (propOf old (js ''codeExample'')) \<longrightarrow> news ! i = old))
           \<and> verification doc'
               = \<lparr>status = IDLE, logs = Str (js ''Fix applied. Ready for re-verification.''),
                  fixedCode = Undefined\<rparr>
           \<and> filePath doc' = filePath doc \<and> summary doc' = summary doc
           \<and> language doc' = language doc \<and> sourceSha doc' = sourceSha doc
           \<and> (\<forall>lang. translationCache st' (cacheKey (path f) lang) = None)"
proof -
  from mapThrowing_applyFix [OF assms(4), of fixed] obtain news where
    n: "mapThrowing (applyFixSection fixed) olds = Inr news"
    and len: "length news = length olds"
    and each: "\<forall>i < length news.
           news ! i = (if truthy (propOf (olds ! i) (js ''codeExample''))
                       then Obj (spreadProps (olds ! i) @ [(js ''codeExample'', fixed)])
                       else olds ! i)"
    by blast
  let ?doc' = "doc\<lparr>sections := Arr news, verification := fixAppliedResult\<rparr>"
  let ?st' = "st\<lparr>docState := (docState st)(path f \<mapsto> ?doc'),
                  translationCache := evictPath (path f) (translationCache st)\<rparr>"
  have r: "handleApplyFix st fixed = Inr ?st'"
    using assms(1-3) n by (simp add: handleApplyFix_def Let_def)
  have props: "\<forall>i < length news.
                 let old = olds ! i
                 in propOf (news ! i) (js ''title'') = propOf old (js ''title'')
                    \<and> propOf (news ! i) (js ''content'') = propOf old (js ''content'')
                    \<and> propOf (news ! i) (js ''codeExample'')
                        = (if truthy (propOf old (js ''codeExample'')) then fixed
                           else propOf old (js ''codeExample''))
                    \<and> (\<not> truthy (propOf old (js ''codeExample'')) \<longrightarrow> news ! i = old)"
    using each by (auto simp: Let_def fixed_section_props)
  have ev: "\<forall>lang. translationCache ?st' (cacheKey (path f) lang) = None"
    by (simp add: evictPath_def cacheKey_def)
  from r len props ev show ?thesis
    by (simp add: fixAppliedResult_def)
qed

theorem applyFix_effect_witness:
  "selectedFile sampleState = Some sampleFile
   \<and> docState sampleState (path sampleFile) = Some sampleDoc
   \<and> translationCache sampleState (cacheKey (path sampleFile) (js ''es'')) = Some sampleOverlay
   \<and> (\<exists>st' doc'. handleApplyFix sampleState (Str (js ''add(2, 3)'')) = Inr st'
         \<and> translationCache st' (cacheKey (path sampleFile) (js ''es'')) = None
         \<and> docState st' (path sampleFile) = Some doc'
         \<and> status (verification doc') = IDLE)"
proof -
  have h1: "selectedFile sampleState = Some sampleFile"
    by (simp add: sampleState_def)
  have h2: "docState sampleState (path sampleFile) = Some sampleDoc"
    by (simp add: sampleState_def sampleFile_def)
  have h3: "translationCache sampleState (cacheKey (path sampleFile) (js ''es''))
              = Some sampleOverlay"
    by (simp add: sampleState_def sampleFile_def cacheKey_def js_def)
  have h4: "arrayOf (if truthy (sections sampleDoc) then sections sampleDoc else Arr [])
              = Inr [docSection (Str (js ''add'')) (Str (js ''Adds two numbers''))
                       (Str (js ''add(1, 2)'')),
                     docSection (Str (js ''Notes'')) (Str (js ''Pure function'')) Undefined]"
    by (simp add: sampleDoc_def arrayOf_def)
  have h5: "list_all (\<lambda>s. \<not> isNullish s)
              [docSection (Str (js ''add'')) (Str (js ''Adds two numbers''))
                 (Str (js ''add(1, 2)'')),
               docSection (Str (js ''Notes'')) (Str (js ''Pure function'')) Undefined]"
    by (simp add: docSection_def isNullish_def)
  from applyFix_effect [OF h1 h2 h4 h5, of "Str (js ''add(2, 3)'')"] obtain st' doc' where
    r: "handleApplyFix sampleState (Str (js ''add(2, 3)'')) = Inr st'"
    and d: "docState st' (path sampleFile) = Some doc'"
    and v: "verification doc'
              = \<lparr>status = IDLE, logs = Str (js ''Fix applied. Ready for re-verification.''),
                 fixedCode = Undefined\<rparr>"
    and e: "\<forall>lang. translationCache st' (cacheKey (path sampleFile) lang) = None"
    by blast
  from r d v e have
    "\<exists>st' doc'. handleApplyFix sampleState (Str (js ''add(2, 3)'')) = Inr st'
         \<and> translationCache st' (cacheKey (path sampleFile) (js ''es'')) = None
         \<and> docState st' (path sampleFile) = Some doc'
         \<and> status (verification doc') = IDLE"
    by simp
  with h1 h2 h3 show ?thesis by blast
qed


section \<open>Staleness\<close>

text \<open>
  C6: the condition checked on file selection is true exactly when the path has no
  canonical entry or the entry's \<^verbatim>\<open>sourceSha\<close> differs from the fingerprint. After
  \<^verbatim>\<open>processFile\<close> has fetched the content and stored the generated document, the path is
  not stale for the file's own fingerprint and stale for every other one, and selecting a
  file with the same path and fingerprint makes no external call and leaves the store as it
  is. In any state with a repository, selecting a file makes no external call exactly when
  its path is not stale for its fingerprint.
\<close>

theorem staleness:
  assumes "repoInfo st = Some info"
  shows "(isStale ds p fp \<longleftrightarrow> (ds p = None \<or> (\<exists>d. ds p = Some d \<and> sourceSha d \<noteq> Some fp)))
     \<and> (let st1 = snd (processFile st f (FetchContent fileContent) outcome now)
        in \<not> isStale (docState st1) (path f) (sha f)
           \<and> (\<forall>fp2. fp2 \<noteq> sha f \<longrightarrow> isStale (docState st1) (path f) fp2)
           \<and> (\<forall>f' fetched' outcome' now'.
                 path f' = path f \<and> sha f' = sha f
                 \<longrightarrow> fst (handleFileSelect st1 f' fetched' outcome' now') = []
                     \<and> docState (snd (handleFileSelect st1 f' fetched' outcome' now')) = docState st1))
     \<and> (\<forall>f' fetched' outcome' now'.
           type f' = File
           \<longrightarrow> (fst (handleFileSelect st f' fetched' outcome' now') = [])
               = (\<not> isStale (docState st) (path f') (sha f')))"
  using assms
  by (auto simp: isStale_def processFile_def processFileSettle_def handleFileSelect_def
        selectFile_def Let_def
        split: option.splits prod.splits fetchOutcome.splits)

theorem staleness_witness:
  "repoInfo sampleState = Some (js ''owner'', js ''repo'')
   \<and> \<not> isStale (docState (snd (processFile sampleState sampleFile
                                 (FetchContent (js ''let x = 1'')) (GenThrows None) (js ''now''))))
          (path sampleFile) (sha sampleFile)
   \<and> isStale (docState (snd (processFile sampleState sampleFile
                               (FetchContent (js ''let x = 1'')) (GenThrows None) (js ''now''))))
        (path sampleFile) (js ''sha2'')
   \<and> fst (handleFileSelect
            (snd (processFile sampleState sampleFile
                    (FetchContent (js ''let x = 1'')) (GenThrows None) (js ''now'')))
            sampleFile (FetchContent (js ''let x = 1'')) (GenThrows None) (js ''later'')) = []"
proof -
  have h: "repoInfo sampleState = Some (js ''owner'', js ''repo'')"
    by (simp add: sampleState_def)
  have ne: "js ''sha2'' \<noteq> sha sampleFile"
    by (simp add: sampleFile_def js_def)
  note s = staleness [OF h, where f = sampleFile and fileContent = "js ''let x = 1''"
      and outcome = "GenThrows None" and now = "js ''now''" and ds = Map.empty and p = "[]"
      and fp = "[]", THEN conjunct2, THEN conjunct1, unfolded Let_def]
  from s have a: "\<not> isStale (docState (snd (processFile sampleState sampleFile
                                 (FetchContent (js ''let x = 1'')) (GenThrows None) (js ''now''))))
          (path sampleFile) (sha sampleFile)"
    by (rule conjunct1)
  from s ne have b: "isStale (docState (snd (processFile sampleState sampleFile
                               (FetchContent (js ''let x = 1'')) (GenThrows None) (js ''now''))))
        (path sampleFile) (js ''sha2'')"
    by blast
  from s have c: "fst (handleFileSelect
            (snd (processFile sampleState sampleFile
                    (FetchContent (js ''let x = 1'')) (GenThrows None) (js ''now'')))
            sampleFile (FetchContent (js ''let x = 1'')) (GenThrows None) (js ''later'')) = []"
    by blast
  from h a b c show ?thesis by blast
qed

section \<open>Verification\<close>

lemma sample_current: "getCurrentDoc sampleState = Some sampleDoc"
  by (simp add: getCurrentDoc_def sampleState_def sampleFile_def)

lemma sample_example: "exampleOf sampleDoc = Inr (Some (Str (js ''add(1, 2)'')))"
  by (simp add: exampleOf_def sampleDoc_def docSection_def arrayOf_def isNullish_def
        lookupProp_def js_def)

lemma sample_overlay:
  "translationCache sampleState (cacheKey (path sampleFile) (js ''es'')) = Some sampleOverlay"
  by (simp add: sampleState_def sampleFile_def cacheKey_def js_def)

text \<open>
  C7: when \<^verbatim>\<open>handleVerify\<close> passes its guards and the source is fetched, the result \<open>r\<close>
  of \<^verbatim>\<open>verifyCodeExample\<close> becomes the verification of the canonical entry, and every
  translation-cache entry of the path that existed before has \<open>r\<close> as its verification and
  is otherwise unchanged: same summary, same sections (titles, contents, code examples).
\<close>

theorem verify_fans_out:
  assumes "selectedFile st = Some f" and "repoInfo st = Some info"
    and "getCurrentDoc st = Some currentDoc" and "exampleOf currentDoc = Inr (Some exampleCode)"
    and "snd (verifyCodeExample (name f) sourceCode exampleCode outcome) = r"
  shows "let st' = snd (handleVerify st (FetchContent sourceCode) outcome)
         in (\<exists>b. docState st' (path f) = Some b \<and> verification b = r)
            \<and> (\<forall>lang d. translationCache st (cacheKey (path f) lang) = Some d
                  \<longrightarrow> (\<exists>d'. translationCache st' (cacheKey (path f) lang) = Some d'
                         \<and> verification d' = r
                         \<and> summary d' = summary d \<and> sections d' = sections d
                         \<and> d' = d\<lparr>verification := r\<rparr>))"
  using assms
  by (auto simp: handleVerify_def handleVerifySettle_def Let_def refreshPath_def cacheKey_def
        withVerification_def
        split: option.splits prod.splits)

theorem verify_fans_out_witness:
  \<open>selectedFile sampleState = Some sampleFile
   \<and> getCurrentDoc sampleState = Some sampleDoc
   \<and> exampleOf sampleDoc = Inr (Some (Str (js ''add(1, 2)'')))
   \<and> translationCache sampleState (cacheKey (path sampleFile) (js ''es'')) = Some sampleOverlay
   \<and> translationCache
        (snd (handleVerify sampleState (FetchContent (js ''export const add = 1''))
                (GenText (Some (js ''{"status":"SUCCESS","logs":"ok"}'')))))
        (cacheKey (path sampleFile) (js ''es''))
       = Some (sampleOverlay\<lparr>verification :=
                  \<lparr>status = SUCCESS, logs = Str (js ''ok''), fixedCode = Undefined\<rparr>\<rparr>)\<close>
proof -
  have h1: "selectedFile sampleState = Some sampleFile"
    by (simp add: sampleState_def)
  have h2: "repoInfo sampleState = Some (js ''owner'', js ''repo'')"
    by (simp add: sampleState_def)
  have h5: \<open>snd (verifyCodeExample (name sampleFile) (js ''export const add = 1'')
                  (Str (js ''add(1, 2)''))
                  (GenText (Some (js ''{"status":"SUCCESS","logs":"ok"}''))))
            = \<lparr>status = SUCCESS, logs = Str (js ''ok''), fixedCode = Undefined\<rparr>\<close>
    by (simp add: verifyCodeExample_def verifyResponseText_def json_eval text_eval)
  from verify_fans_out [OF h1 h2 sample_current sample_example h5] sample_overlay h1
    sample_current sample_example
  show ?thesis
    by (auto simp: Let_def)
qed

text \<open>
  C4, as the specification states it, fails. The truncated answer
  \<^verbatim>\<open>{"status":"SUCCESS","logs":"ok"\<close> would parse after the repair of
  \<^verbatim>\<open>repairAndParseJson\<close>, but \<^verbatim>\<open>verifyCodeExample\<close> calls \<^verbatim>\<open>JSON.parse\<close> alone; its
  \<^verbatim>\<open>catch\<close> returns an ordinary FAILED verdict, which \<^verbatim>\<open>handleVerify\<close> stores in the
  canonical entry without setting an error message.
\<close>

theorem malformed_verdict_is_stored:
  \<open>truthy (repairAndParseJson (cleanJson (js ''{"status":"SUCCESS","logs":"ok"'')))
   \<and> verifyResponseText (js ''{"status":"SUCCESS","logs":"ok"'')
       = \<lparr>status = FAILED,
          logs = Str (js ''Verification failed: Invalid JSON response from AI.''),
          fixedCode = Undefined\<rparr>
   \<and> map_option verification
        (docState (snd (handleVerify sampleState (FetchContent (js ''export const add = 1''))
                          (GenText (Some (js ''{"status":"SUCCESS","logs":"ok"'')))))
           (js ''src/a.ts''))
       = Some \<lparr>status = FAILED,
               logs = Str (js ''Verification failed: Invalid JSON response from AI.''),
               fixedCode = Undefined\<rparr>
   \<and> errorMsg (snd (handleVerify sampleState (FetchContent (js ''export const add = 1''))
                     (GenText (Some (js ''{"status":"SUCCESS","logs":"ok"''))))) = None\<close>
  by (simp add: sample_eval app_eval json_eval text_eval)

text \<open>
  C4, amended: when the text extracted from the oracle's answer is not valid JSON,
  \<^verbatim>\<open>verifyCodeExample\<close> applies no repair and returns the verdict FAILED with the log line
  \<^verbatim>\<open>Verification failed: Invalid JSON response from AI.\<close> and no fixed code;
  \<^verbatim>\<open>handleVerify\<close> stores that verdict in the canonical entry and in every overlay of the
  path and leaves the error message as it was.
\<close>

theorem malformed_verification_output:
  assumes "JSON_parse (cleanJson t) = None" and "t \<noteq> []"
    and "selectedFile st = Some f" and "repoInfo st = Some info"
    and "getCurrentDoc st = Some currentDoc" and "exampleOf currentDoc = Inr (Some exampleCode)"
  shows "verifyCodeExample fileName src example (GenText (Some t))
           = ([GenerateContent VerifyRequest],
              \<lparr>status = FAILED,
               logs = Str (js ''Verification failed: Invalid JSON response from AI.''),
               fixedCode = Undefined\<rparr>)
     \<and> (let st' = snd (handleVerify st (FetchContent src) (GenText (Some t)))
        in (\<exists>b. docState st' (path f) = Some b
                \<and> verification b
                    = \<lparr>status = FAILED,
                       logs = Str (js ''Verification failed: Invalid JSON response from AI.''),
                       fixedCode = Undefined\<rparr>)
           \<and> errorMsg st' = errorMsg st
           \<and> (\<forall>lang d. translationCache st (cacheKey (path f) lang) = Some d
                 \<longrightarrow> translationCache st' (cacheKey (path f) lang)
                     = Some (d\<lparr>verification :=
                                \<lparr>status = FAILED,
                                 logs = Str (js ''Verification failed: Invalid JSON response from AI.''),
                                 fixedCode = Undefined\<rparr>\<rparr>)))"
  using assms
  by (auto simp: handleVerify_def handleVerifySettle_def verifyCodeExample_def
        verifyResponseText_def invalidJsonResult_def Let_def refreshPath_def cacheKey_def
        withVerification_def
        split: option.splits prod.splits)

theorem malformed_verification_output_witness:
  \<open>JSON_parse (cleanJson (js ''{"status":"SUCCESS","logs":"ok"'')) = None
   \<and> getCurrentDoc sampleState = Some sampleDoc
   \<and> exampleOf sampleDoc = Inr (Some (Str (js ''add(1, 2)'')))
   \<and> errorMsg (snd (handleVerify sampleState (FetchContent (js ''export const add = 1''))
                      (GenText (Some (js ''{"status":"SUCCESS","logs":"ok"''))))) = None
   \<and> translationCache
        (snd (handleVerify sampleState (FetchContent (js ''export const add = 1''))
                (GenText (Some (js ''{"status":"SUCCESS","logs":"ok"'')))))
        (cacheKey (path sampleFile) (js ''es''))
       = Some (sampleOverlay\<lparr>verification :=
                  \<lparr>status = FAILED,
                   logs = Str (js ''Verification failed: Invalid JSON response from AI.''),
                   fixedCode = Undefined\<rparr>\<rparr>)\<close>
proof -
  have p: \<open>JSON_parse (cleanJson (js ''{"status":"SUCCESS","logs":"ok"'')) = None\<close>
    by (simp add: json_eval text_eval)
  have n: \<open>js ''{"status":"SUCCESS","logs":"ok"'' \<noteq> []\<close>
    by (simp add: js_def)
  have h1: "selectedFile sampleState = Some sampleFile"
    by (simp add: sampleState_def)
  have h2: "repoInfo sampleState = Some (js ''owner'', js ''repo'')"
    by (simp add: sampleState_def)
  have e: "errorMsg sampleState = None"
    by (simp add: sampleState_def)
  from malformed_verification_output [OF p n h1 h2 sample_current sample_example,
      where src = "js ''export const add = 1''"] sample_overlay e p sample_current
    sample_example
  show ?thesis
    by (auto simp: Let_def)
qed

section \<open>Failures of the collaborators\<close>

text \<open>
  C2, as the specification states it, fails for the generation service: when the call to
  the generator throws, \<^verbatim>\<open>generateDocumentation\<close> catches the error and returns a
  placeholder document, which \<^verbatim>\<open>processFile\<close> stores over the canonical entry, evicting
  the overlays of the path, without an error message.
\<close>

theorem generation_failure_is_stored:
  \<open>docState (snd (processFile sampleState sampleFile (FetchContent (js ''let x = 1''))
                    (GenThrows None) (js ''now''))) (js ''src/a.ts'')
     \<noteq> docState sampleState (js ''src/a.ts'')
   \<and> translationCache (snd (processFile sampleState sampleFile (FetchContent (js ''let x = 1''))
                             (GenThrows None) (js ''now''))) (js ''src/a.ts:es'')
     \<noteq> translationCache sampleState (js ''src/a.ts:es'')
   \<and> errorMsg (snd (processFile sampleState sampleFile (FetchContent (js ''let x = 1''))
                     (GenThrows None) (js ''now''))) = None
   \<and> fst (processFile sampleState sampleFile (FetchContent (js ''let x = 1''))
            (GenThrows None) (js ''now''))
     = [FetchFileContent (js ''src/a.ts''), GenerateContent DocsRequest]\<close>
  by (simp add: sample_eval app_eval js_def)

text \<open>
  C2, amended: a failure of \<^verbatim>\<open>fetchFileContent\<close> is reported by \<^verbatim>\<open>processFile\<close> (error
  message and status ERROR) and changes neither cache, and in \<^verbatim>\<open>handleVerify\<close> it changes
  neither cache either. A failure of the generation service (the call throws, or answers
  without text) on a file that is not minified is not reported: the placeholder document
  of \<^verbatim>\<open>generateDocumentation\<close> is stored as the canonical entry of the path with the file's
  fingerprint and an Idle verification, the overlays of the path are evicted, and the error
  message stays as it was.
\<close>

theorem failures_and_caches:
  assumes "repoInfo st = Some info"
    and "\<not> (\<exists>line\<in>set (splitOn 10 fileContent). 1000 < length line)"
    and "outcome = GenThrows err \<or> outcome = GenText None \<or> outcome = GenText (Some [])"
  shows "(let st1 = snd (processFile st f (FetchThrows msg) outcome now)
          in docState st1 = docState st \<and> translationCache st1 = translationCache st
             \<and> errorMsg st1 = Some (js ''Failed to generate docs: '' @ msg)
             \<and> appStatus st1 = ERROR)
     \<and> (let st2 = snd (handleVerify st (FetchThrows msg) outcome)
        in docState st2 = docState st \<and> translationCache st2 = translationCache st)
     \<and> (let st3 = snd (processFile st f (FetchContent fileContent) outcome now)
        in (\<exists>d. docState st3 (path f) = Some d
                \<and> summary d
                    = Str (if outcome = GenThrows err
                           then js ''Service Error: Unable to contact AI.''
                           else js ''Analysis Blocked: AI returned no content.'')
                \<and> sourceSha d = Some (sha f)
                \<and> verification d = \<lparr>status = IDLE, logs = Str [], fixedCode = Undefined\<rparr>)
           \<and> translationCache st3 = evictPath (path f) (translationCache st)
           \<and> errorMsg st3 = errorMsg st)"
  using assms
  by (auto simp: processFile_def processFileSettle_def handleVerify_def handleVerifySettle_def
        generateDocumentation_def Let_def list_ex_iff serviceErrorDoc_def blockedDoc_def
        split: option.splits prod.splits fetchOutcome.splits sum.splits)

theorem failures_and_caches_witness:
  "repoInfo sampleState = Some (js ''owner'', js ''repo'')
   \<and> \<not> (\<exists>line\<in>set (splitOn 10 (js ''let x = 1'')). 1000 < length line)
   \<and> docState (snd (processFile sampleState sampleFile (FetchThrows (js ''Not Found''))
                      (GenThrows None) (js ''now''))) = docState sampleState
   \<and> translationCache (snd (processFile sampleState sampleFile (FetchThrows (js ''Not Found''))
                      (GenThrows None) (js ''now''))) = translationCache sampleState
   \<and> errorMsg (snd (processFile sampleState sampleFile (FetchThrows (js ''Not Found''))
                      (GenThrows None) (js ''now'')))
       = Some (js ''Failed to generate docs: '' @ js ''Not Found'')
   \<and> translationCache (snd (processFile sampleState sampleFile (FetchContent (js ''let x = 1''))
                      (GenThrows None) (js ''now'')))
       = evictPath (path sampleFile) (translationCache sampleState)"
proof -
  have h1: "repoInfo sampleState = Some (js ''owner'', js ''repo'')"
    by (simp add: sampleState_def)
  have h2: "\<not> (\<exists>line\<in>set (splitOn 10 (js ''let x = 1'')). 1000 < length line)"
    by (simp add: js_def)
  have h3: "GenThrows None = GenThrows None \<or> GenThrows None = GenText None
            \<or> GenThrows None = GenText (Some [])"
    by simp
  from failures_and_caches [OF h1 h2 h3, where f = sampleFile and msg = "js ''Not Found''"
      and now = "js ''now''"] h1 h2
  show ?thesis
    by (auto simp: Let_def)
qed


section \<open>A fix applied while a translation is in flight\<close>

lemma race_outcome:
  "overlayAndCanonical (run (freshRuntime (js ''owner'', js ''repo'')) raceEvents)
     (js ''src/a.ts'') (js ''fr'')
   = (Some [Str (js ''add(1, 2)'')], Some [Str (js ''add(2, 3)'')], False)"
  by (simp add: sample_eval app_eval run_eval json_eval text_eval overlayAndCanonical_def)

text \<open>
  C8 fails of the program. \<^verbatim>\<open>handleTranslate\<close> reads the base document before it awaits
  the translation and writes the overlay after it; \<^verbatim>\<open>handleApplyFix\<close> has no guard on
  the status, and the viewer keeps Apply AI Fix on display while a translation is
  running. In the run \<open>raceEvents\<close> the fix is applied between the two parts of the
  translation: the overlays of the path are evicted and the canonical example becomes
  \<^verbatim>\<open>add(2, 3)\<close>, then the translation arrives and is cached with the example
  \<^verbatim>\<open>add(1, 2)\<close> of the base document read before. No render throws in the run, and at
  its end the French overlay of \<^verbatim>\<open>src/a.ts\<close> and the canonical entry differ in their code
  example.
\<close>

theorem fix_during_translation_leaves_stale_overlay:
  "let rt = run (freshRuntime (js ''owner'', js ''repo'')) raceEvents
   in \<not> crashed rt
      \<and> inFlight rt = []
      \<and> map_option codeExamples (translationCache (app rt) (cacheKey (js ''src/a.ts'') (js ''fr'')))
          = Some [Str (js ''add(1, 2)'')]
      \<and> map_option codeExamples (docState (app rt) (js ''src/a.ts''))
          = Some [Str (js ''add(2, 3)'')]"
  by (simp add: sample_eval app_eval run_eval json_eval text_eval)

text \<open>The invariant of the specification does not hold at the end of that run.\<close>

lemma race_breaks_mirror:
  "\<not> overlaysMirror (app (run (freshRuntime (js ''owner'', js ''repo'')) raceEvents))"
proof
  assume m: "overlaysMirror (app (run (freshRuntime (js ''owner'', js ''repo'')) raceEvents))"
  from race_outcome obtain d b where
    d: "translationCache (app (run (freshRuntime (js ''owner'', js ''repo'')) raceEvents))
          (cacheKey (js ''src/a.ts'') (js ''fr'')) = Some d"
    and cd: "codeExamples d = [Str (js ''add(1, 2)'')]"
    and b: "docState (app (run (freshRuntime (js ''owner'', js ''repo'')) raceEvents))
          (js ''src/a.ts'') = Some b"
    and cb: "codeExamples b = [Str (js ''add(2, 3)'')]"
    by (auto simp: overlayAndCanonical_def)
  have l: "js ''fr'' \<in> set LANGUAGES"
    by (simp add: LANGUAGES_def js_def)
  from m l d obtain b' where
    "docState (app (run (freshRuntime (js ''owner'', js ''repo'')) raceEvents))
          (js ''src/a.ts'') = Some b'" and "codeExamples d = codeExamples b'"
    unfolding overlaysMirror_def by blast
  with b cd cb show False
    by (simp add: js_def)
qed

text \<open>
  What the specification says of the merge holds of each handler taken alone: the merge of
  \<^verbatim>\<open>translateDocumentation\<close> copies the code example of every section, so a translation
  whose two parts run without an event between them caches an overlay with the code
  examples of the canonical entry, which it leaves as it is.
\<close>

lemma mergeSection_codeExample:
  assumes "mergeSection parsed (i, s) = Inr m"
  shows "propOf m (js ''codeExample'') = propOf s (js ''codeExample'')"
proof -
  have k: "\<not> set (js ''codeExample'') \<subseteq> {48..57}"
    by (simp add: js_def)
  from assms obtain t c where
    m: "m = Obj (spreadProps s @ [(js ''title'', t), (js ''content'', c)])"
    by (auto simp: mergeSection_def Let_def split: sum.splits)
  show ?thesis
    unfolding m using lookupProp_spreadProps [OF k, of s]
    by (simp add: lookupProp_append) (simp add: js_def)
qed

lemma mapThrowing_merge_codeExamples:
  "mapThrowing (mergeSection parsed) (enumerate n secs) = Inr merged \<Longrightarrow>
   map (\<lambda>section. propOf section (js ''codeExample'')) merged
     = map (\<lambda>section. propOf section (js ''codeExample'')) secs"
proof (induction secs arbitrary: n merged)
  case Nil
  then show ?case by simp
next
  case (Cons s secs)
  from Cons.prems obtain m ms where
    m: "mergeSection parsed (n, s) = Inr m"
    and ms: "mapThrowing (mergeSection parsed) (enumerate (Suc n) secs) = Inr ms"
    and merged: "merged = m # ms"
    by (auto split: sum.splits)
  from mergeSection_codeExample [OF m] Cons.IH [OF ms] merged show ?case
    by simp
qed

lemma translateMerge_codeExamples:
  "codeExamples (translateMerge doc targetLanguage outcome) = codeExamples doc"
proof (cases "\<exists>merged secs parsed. sections doc = Arr secs
          \<and> mapThrowing (mergeSection parsed) (enumerate 0 secs) = Inr merged
          \<and> translateMerge doc targetLanguage outcome
              = doc\<lparr>summary := propOf parsed (js ''summary''), sections := Arr merged,
                    language := Str targetLanguage\<rparr>")
  case True
  then obtain merged secs parsed where
    s: "sections doc = Arr secs"
    and m: "mapThrowing (mergeSection parsed) (enumerate 0 secs) = Inr merged"
    and t: "translateMerge doc targetLanguage outcome
              = doc\<lparr>summary := propOf parsed (js ''summary''), sections := Arr merged,
                    language := Str targetLanguage\<rparr>"
    by blast
  from mapThrowing_merge_codeExamples [OF m] s t show ?thesis
    by (simp add: codeExamples_def viewerSections_def)
next
  case False
  then have "translateMerge doc targetLanguage outcome = doc"
    by (auto simp: translateMerge_def Let_def arrayOf_def
          split: genOutcome.splits option.splits sum.splits jsval.splits if_splits)
  then show ?thesis by simp
qed

lemma uninterrupted_translation_mirrors:
  assumes "selectedFile st = Some f" and "docState st (path f) = Some baseDoc"
    and "translationCache st (cacheKey (path f) lang) = None"
    and "translationCache (snd (handleTranslate st lang outcome)) (cacheKey (path f) lang)
           = Some d"
  shows "codeExamples d = codeExamples baseDoc
         \<and> docState (snd (handleTranslate st lang outcome)) = docState st"
  using assms translateMerge_codeExamples [of baseDoc lang outcome]
  by (auto simp: handleTranslate_def handleTranslateSettle_def translateDocumentation_def
        translatePrecheck_def
        split: if_splits sum.splits option.splits)

end
